theory Spec2Isabelle
  imports Main "HOL-Library.Word"
begin

section \<open>Python values used by the interpreter\<close>

text \<open>
  The sources are \<^verbatim>\<open>int256.py\<close> (the 256-bit word) and \<^verbatim>\<open>evm.py\<close> (machine state,
  instruction handlers, dispatch table and the fetch loop of \<^verbatim>\<open>main\<close>). Python integers are
  unbounded and modelled as \<^typ>\<open>int\<close>; a \<^verbatim>\<open>bytes\<close> object is a list of 8-bit words; every
  exception the code can raise is a constructor of \<open>error\<close>, and a function that can raise
  returns \<open>error + result\<close>. Arithmetic on unbounded integers is taken as exact: the memory
  a huge shift or power would need is not part of the model.

  \<^verbatim>\<open>HaltExecution\<close> and \<^verbatim>\<open>InvalidJumpDestination\<close> are the two exception classes of
  \<^verbatim>\<open>evm.py\<close>. The other faults surface as built-in exceptions: \<^verbatim>\<open>list.pop\<close> on an empty
  stack and any index out of range raise IndexError (the stack-underflow fault of the design),
  a byte missing from the dispatch table raises KeyError (its invalid-opcode fault),
  \<^verbatim>\<open>to_bytes\<close> on a value that does not fit raises OverflowError, a word that is not 32
  bytes long raises ValueError, and an operator applied to an unsupported operand raises
  TypeError.
\<close>

type_synonym byte = "8 word"

datatype error =
    HaltExecution
  | InvalidJumpDestination
  | IndexError
  | KeyError
  | TypeError
  | ValueError
  | OverflowError

subsection \<open>Sequences: indexing, slicing, \<^verbatim>\<open>list.pop\<close>\<close>

definition getitem :: "'a list \<Rightarrow> int \<Rightarrow> error + 'a" where
  \<comment> \<open>\<^verbatim>\<open>xs[k]\<close>: a negative index counts from the end, anything outside raises IndexError.\<close>
  "getitem xs k =
     (let n = int (length xs) in
      if 0 \<le> k \<and> k < n then Inr (xs ! nat k)
      else if - n \<le> k \<and> k < 0 then Inr (xs ! nat (k + n))
      else Inl IndexError)"

definition setitem :: "'a list \<Rightarrow> int \<Rightarrow> 'a \<Rightarrow> error + 'a list" where
  \<comment> \<open>\<^verbatim>\<open>xs[k] = v\<close> on a list.\<close>
  "setitem xs k v =
     (let n = int (length xs) in
      if 0 \<le> k \<and> k < n then Inr (xs[nat k := v])
      else if - n \<le> k \<and> k < 0 then Inr (xs[nat (k + n) := v])
      else Inl IndexError)"

definition slice_index :: "int \<Rightarrow> int \<Rightarrow> nat" where
  \<comment> \<open>How a slice bound \<open>k\<close> is clamped for a sequence of length \<open>n\<close>.\<close>
  "slice_index n k = nat (if k < 0 then max (k + n) 0 else min k n)"

definition slice :: "'a list \<Rightarrow> int \<Rightarrow> int \<Rightarrow> 'a list" where
  \<comment> \<open>\<^verbatim>\<open>xs[a:b]\<close>; never raises.\<close>
  "slice xs a b =
     (let n = int (length xs); lo = slice_index n a; hi = slice_index n b
      in take (hi - lo) (drop lo xs))"

definition list_pop :: "'a list \<Rightarrow> error + ('a \<times> 'a list)" where
  \<comment> \<open>\<^verbatim>\<open>xs.pop()\<close>: removes and returns the last element; IndexError on the empty list.\<close>
  "list_pop xs = (if xs = [] then Inl IndexError else Inr (last xs, butlast xs))"

subsection \<open>\<^verbatim>\<open>int.to_bytes\<close> and \<^verbatim>\<open>int.from_bytes\<close>, big-endian\<close>

fun to_bytes_big :: "nat \<Rightarrow> int \<Rightarrow> byte list" where
  "to_bytes_big 0 v = []"
| "to_bytes_big (Suc n) v = to_bytes_big n (v div 256) @ [word_of_int (v mod 256)]"

definition int_to_bytes :: "int \<Rightarrow> nat \<Rightarrow> bool \<Rightarrow> error + byte list" where
  \<comment> \<open>\<^verbatim>\<open>v.to_bytes(n, "big", signed=sg)\<close>: OverflowError when \<open>v\<close> does not fit.\<close>
  "int_to_bytes v n sg =
     (if sg then
        (if - (256 ^ n) \<le> 2 * v \<and> 2 * v < 256 ^ n
         then Inr (to_bytes_big n (v mod 256 ^ n)) else Inl OverflowError)
      else
        (if 0 \<le> v \<and> v < 256 ^ n then Inr (to_bytes_big n v) else Inl OverflowError))"

definition from_bytes_big :: "byte list \<Rightarrow> int" where
  "from_bytes_big bs = foldl (\<lambda>acc b. acc * 256 + uint b) 0 bs"

definition int_from_bytes :: "byte list \<Rightarrow> bool \<Rightarrow> int" where
  \<comment> \<open>\<^verbatim>\<open>int.from_bytes(bs, "big", signed=sg)\<close>: two's complement when \<open>sg\<close>.\<close>
  "int_from_bytes bs sg =
     (let u = from_bytes_big bs in
      if sg \<and> bs \<noteq> [] \<and> 128 \<le> uint (hd bs) then u - 256 ^ length bs else u)"

subsection \<open>Floats produced by \<^verbatim>\<open>int / int\<close>\<close>

text \<open>
  Python's \<^verbatim>\<open>/\<close> on two ints is true division: the result is the IEEE-754 double nearest
  to the exact quotient, ties to the even mantissa. A finite double is \<open>mantissa * 2^exponent\<close>
  with a mantissa of at most 53 bits; \<open>PyFloat m e\<close> stands for that number. For operands
  below \<open>2^256\<close> in magnitude the quotient is far inside the normal range of doubles, so neither
  overflow nor subnormal rounding occurs.
\<close>

datatype pyfloat = PyFloat (mantissa: int) (exponent: int)

function bit_length :: "int \<Rightarrow> nat" where
  \<comment> \<open>\<^verbatim>\<open>n.bit_length()\<close> for \<open>n \<ge> 0\<close>.\<close>
  "bit_length n = (if n \<le> 0 then 0 else Suc (bit_length (n div 2)))"
  by pat_completeness auto
termination
  by (relation "measure nat") auto

definition truediv :: "int \<Rightarrow> int \<Rightarrow> pyfloat" where
  \<comment> \<open>\<^verbatim>\<open>a / b\<close> for \<open>b \<noteq> 0\<close>: scale the quotient into \<open>[2^52, 2^53)\<close>, round half to even.\<close>
  "truediv a b =
     (let n = \<bar>a\<bar>; d = \<bar>b\<bar> in
      if n = 0 then PyFloat 0 0
      else
        let k = int (bit_length n) - int (bit_length d);
            lg = (if d * 2 ^ nat k \<le> n * 2 ^ nat (- k) then k else k - 1);
            e = lg - 52;
            num = n * 2 ^ nat (- e);
            den = d * 2 ^ nat e;
            q = num div den;
            r = num mod den;
            mt = (if den < 2 * r \<or> (2 * r = den \<and> odd q) then q + 1 else q)
        in PyFloat (sgn a * sgn b * mt) e)"

definition float_abs :: "pyfloat \<Rightarrow> pyfloat" where
  "float_abs x = PyFloat \<bar>mantissa x\<bar> (exponent x)"

definition float_to_int :: "pyfloat \<Rightarrow> int" where
  \<comment> \<open>\<^verbatim>\<open>int(x)\<close>: truncation towards zero.\<close>
  "float_to_int x =
     (if 0 \<le> exponent x then mantissa x * 2 ^ nat (exponent x)
      else sgn (mantissa x) * (\<bar>mantissa x\<bar> div 2 ^ nat (- exponent x)))"

definition sgn_int :: "int \<Rightarrow> int" where
  \<comment> \<open>\<^verbatim>\<open>int256.sgn\<close> applied to an int.\<close>
  "sgn_int x = (if x = 0 then 0 else if x < 0 then - 1 else 1)"

definition sgn_float :: "pyfloat \<Rightarrow> int" where
  \<comment> \<open>\<^verbatim>\<open>int256.sgn\<close> applied to a float.\<close>
  "sgn_float x = (if mantissa x = 0 then 0 else if mantissa x < 0 then - 1 else 1)"

section \<open>The 256-bit word: \<^verbatim>\<open>int256.Int256\<close>\<close>

datatype Int256 = MkInt256 (bytes_value: "byte list")

definition Int256_init :: "byte list \<Rightarrow> error + Int256" where
  \<comment> \<open>\<^verbatim>\<open>Int256.__init__\<close>: rejects anything but 32 bytes.\<close>
  "Int256_init bs = (if length bs \<noteq> 32 then Inl ValueError else Inr (MkInt256 bs))"

definition Int256_signed :: "Int256 \<Rightarrow> int" where
  "Int256_signed w = int_from_bytes (bytes_value w) True"

definition Int256_unsigned :: "Int256 \<Rightarrow> int" where
  "Int256_unsigned w = int_from_bytes (bytes_value w) False"

definition from_int :: "int \<Rightarrow> error + Int256" where
  "from_int v =
     (case int_to_bytes v 32 False of Inl e \<Rightarrow> Inl e | Inr bs \<Rightarrow> Int256_init bs)"

definition from_signed_int :: "int \<Rightarrow> error + Int256" where
  "from_signed_int v =
     (case int_to_bytes v 32 True of Inl e \<Rightarrow> Inl e | Inr bs \<Rightarrow> Int256_init bs)"

definition Int256_add :: "Int256 \<Rightarrow> Int256 \<Rightarrow> error + Int256" where
  "Int256_add w other = from_int ((Int256_unsigned w + Int256_unsigned other) mod 2 ^ 256)"

definition Int256_mul :: "Int256 \<Rightarrow> Int256 \<Rightarrow> error + Int256" where
  "Int256_mul w other = from_int ((Int256_unsigned w * Int256_unsigned other) mod 2 ^ 256)"

definition Int256_sub :: "Int256 \<Rightarrow> Int256 \<Rightarrow> error + Int256" where
  "Int256_sub w other = from_int ((Int256_unsigned w - Int256_unsigned other) mod 2 ^ 256)"

definition Int256_div :: "Int256 \<Rightarrow> Int256 \<Rightarrow> error + Int256" where
  "Int256_div w other =
     (if Int256_unsigned other = 0 then from_int 0
      else from_int (Int256_unsigned w div Int256_unsigned other))"

definition Int256_sdiv :: "Int256 \<Rightarrow> Int256 \<Rightarrow> error + Int256" where
  \<comment> \<open>The general branch divides with \<^verbatim>\<open>/\<close>, so the quotient passes through a float.\<close>
  "Int256_sdiv w other =
     (if Int256_signed other = 0 then from_int 0
      else if Int256_signed w = - (2 ^ 255) \<and> Int256_signed other = - 1
      then from_signed_int (- (2 ^ 255))
      else from_signed_int
             (sgn_float (truediv (Int256_signed w) (Int256_signed other)) *
              float_to_int (float_abs (truediv (Int256_signed w) (Int256_signed other)))))"

definition Int256_mod :: "Int256 \<Rightarrow> Int256 \<Rightarrow> error + Int256" where
  "Int256_mod w other =
     (if Int256_unsigned other = 0 then from_int 0
      else from_int (Int256_unsigned w mod Int256_unsigned other))"

definition Int256_smod :: "Int256 \<Rightarrow> Int256 \<Rightarrow> error + Int256" where
  "Int256_smod w other =
     (if Int256_signed other = 0 then from_int 0
      else from_signed_int
             (sgn_int (Int256_signed w) * (\<bar>Int256_signed w\<bar> mod \<bar>Int256_signed other\<bar>)))"

definition Int256_addmod :: "Int256 \<Rightarrow> Int256 \<Rightarrow> Int256 \<Rightarrow> error + Int256" where
  "Int256_addmod w other md =
     (if Int256_signed md = 0 then from_int 0
      else from_int ((Int256_unsigned w + Int256_unsigned other) mod Int256_unsigned md))"

definition Int256_mulmod :: "Int256 \<Rightarrow> Int256 \<Rightarrow> Int256 \<Rightarrow> error + Int256" where
  "Int256_mulmod w other md =
     (if Int256_signed md = 0 then from_int 0
      else from_int ((Int256_unsigned w * Int256_unsigned other) mod Int256_unsigned md))"

definition Int256_exp :: "Int256 \<Rightarrow> Int256 \<Rightarrow> error + Int256" where
  "Int256_exp w ex =
     from_int ((Int256_unsigned w ^ nat (Int256_unsigned ex)) mod 2 ^ 256)"

definition Int256_signextend :: "Int256 \<Rightarrow> Int256 \<Rightarrow> error + Int256" where
  \<comment> \<open>\<^verbatim>\<open>b"\xff" * k\<close> is empty for \<open>k \<le> 0\<close>; the index and the slice follow Python's rules.\<close>
  "Int256_signextend w other =
     (let k = 31 - Int256_unsigned other in
      case getitem (bytes_value w) k of
        Inl e \<Rightarrow> Inl e
      | Inr b \<Rightarrow>
          if drop_bit 7 b \<noteq> 0
          then Int256_init (replicate (nat k) 255 @ slice (bytes_value w) k 32)
          else Int256_init (replicate (nat k) 0 @ slice (bytes_value w) k 32))"

definition Int256_lt :: "Int256 \<Rightarrow> Int256 \<Rightarrow> error + Int256" where
  "Int256_lt w other =
     (if Int256_unsigned w < Int256_unsigned other then from_int 1 else from_int 0)"

definition Int256_gt :: "Int256 \<Rightarrow> Int256 \<Rightarrow> error + Int256" where
  "Int256_gt w other =
     (if Int256_unsigned other < Int256_unsigned w then from_int 1 else from_int 0)"

definition Int256_slt :: "Int256 \<Rightarrow> Int256 \<Rightarrow> error + Int256" where
  "Int256_slt w other =
     (if Int256_signed w < Int256_signed other then from_int 1 else from_int 0)"

definition Int256_sgt :: "Int256 \<Rightarrow> Int256 \<Rightarrow> error + Int256" where
  "Int256_sgt w other =
     (if Int256_signed other < Int256_signed w then from_int 1 else from_int 0)"

definition Int256_eq :: "Int256 \<Rightarrow> Int256 \<Rightarrow> error + Int256" where
  "Int256_eq w other =
     (if bytes_value w = bytes_value other then from_int 1 else from_int 0)"

definition Int256_iszero :: "Int256 \<Rightarrow> error + Int256" where
  "Int256_iszero w = (if Int256_unsigned w = 0 then from_int 1 else from_int 0)"

definition Int256_and :: "Int256 \<Rightarrow> Int256 \<Rightarrow> error + Int256" where
  "Int256_and w other = from_int (and (Int256_unsigned w) (Int256_unsigned other))"

definition Int256_or :: "Int256 \<Rightarrow> Int256 \<Rightarrow> error + Int256" where
  "Int256_or w other = from_int (or (Int256_unsigned w) (Int256_unsigned other))"

definition Int256_xor :: "Int256 \<Rightarrow> Int256 \<Rightarrow> error + Int256" where
  "Int256_xor w other = from_int (xor (Int256_unsigned w) (Int256_unsigned other))"

definition Int256_not :: "Int256 \<Rightarrow> error + Int256" where
  \<comment> \<open>\<^verbatim>\<open>~u\<close> on a Python int is \<open>- u - 1\<close>; it is then encoded as a signed value.\<close>
  "Int256_not w = from_signed_int (- Int256_unsigned w - 1)"

definition Int256_byte :: "Int256 \<Rightarrow> int \<Rightarrow> error + Int256" where
  "Int256_byte w idx =
     (case getitem (bytes_value w) idx of
        Inl e \<Rightarrow> Inl e
      | Inr b \<Rightarrow> from_int (uint b))"

definition Int256_shl :: "Int256 \<Rightarrow> Int256 \<Rightarrow> error + Int256" where
  "Int256_shl w shift =
     from_int ((Int256_unsigned w * 2 ^ nat (Int256_unsigned shift)) mod 2 ^ 256)"

definition Int256_shr :: "Int256 \<Rightarrow> Int256 \<Rightarrow> error + Int256" where
  \<comment> \<open>The handler passes the popped \<^verbatim>\<open>Int256\<close> itself as \<^verbatim>\<open>shift\<close>; \<^verbatim>\<open>int >> Int256\<close>
      is not defined (the class has no \<^verbatim>\<open>__rrshift__\<close>), so Python raises TypeError.\<close>
  "Int256_shr w shift = Inl TypeError"

definition Int256_sar :: "Int256 \<Rightarrow> Int256 \<Rightarrow> error + Int256" where
  \<comment> \<open>As \<open>Int256_shr\<close>: \<^verbatim>\<open>self.signed >> shift\<close> with an \<^verbatim>\<open>Int256\<close> shift raises TypeError.\<close>
  "Int256_sar w shift = Inl TypeError"

definition Int256_ne_int :: "Int256 \<Rightarrow> int \<Rightarrow> bool" where
  \<comment> \<open>\<^verbatim>\<open>w != n\<close> for an \<^verbatim>\<open>Int256\<close> \<open>w\<close> and an int \<open>n\<close>. The class defines neither
      \<^verbatim>\<open>__eq__\<close> nor \<^verbatim>\<open>__ne__\<close>, and int's comparison does not know the class, so Python
      falls back to object identity: an \<^verbatim>\<open>Int256\<close> object is never the int, and the
      comparison is true whatever the bytes are.\<close>
  "Int256_ne_int w n = True"

section \<open>The machine state: \<^verbatim>\<open>evm.MachineState\<close>\<close>

text \<open>
  Fields as in the source: \<open>code\<close> the program, \<open>gas\<close>, the program counter \<open>pc\<close>, the
  memory \<open>m\<close> (a \<^verbatim>\<open>defaultdict(int)\<close> from offsets to byte values), \<open>i\<close> the number of
  active memory words and the stack \<open>s\<close>, a Python list whose last element is the top.
\<close>

record MachineState =
  code :: "byte list"
  gas :: int
  pc :: int
  m :: "int \<rightharpoonup> byte"
  i :: int
  s :: "Int256 list"

definition read_mem_256 :: "MachineState \<Rightarrow> int \<Rightarrow> error + (Int256 \<times> MachineState)" where
  \<comment> \<open>Reading an absent key of a \<^verbatim>\<open>defaultdict(int)\<close> yields 0 and stores that 0 under the key.\<close>
  "read_mem_256 st offset =
     (let ks = map (\<lambda>x. offset + int x) [0..<32];
          bs = map (\<lambda>k. case m st k of None \<Rightarrow> 0 | Some v \<Rightarrow> v) ks;
          mem = foldl (\<lambda>mm k. case mm k of None \<Rightarrow> mm(k \<mapsto> 0) | Some v \<Rightarrow> mm) (m st) ks
      in case Int256_init bs of
           Inl e \<Rightarrow> Inl e
         | Inr w \<Rightarrow> Inr (w, st\<lparr>m := mem\<rparr>))"

definition write_mem_256 :: "MachineState \<Rightarrow> int \<Rightarrow> Int256 \<Rightarrow> MachineState" where
  "write_mem_256 st offset val =
     st\<lparr>m := foldl (\<lambda>mm (x, d). mm(offset + int x \<mapsto> d)) (m st)
                 (enumerate 0 (bytes_value val))\<rparr>"

definition write_mem_8 :: "MachineState \<Rightarrow> int \<Rightarrow> Int256 \<Rightarrow> error + MachineState" where
  "write_mem_8 st offset val =
     (case getitem (bytes_value val) 31 of
        Inl e \<Rightarrow> Inl e
      | Inr d \<Rightarrow> Inr (st\<lparr>m := (m st)(offset \<mapsto> d)\<rparr>))"

definition s_pop :: "MachineState \<Rightarrow> error + (Int256 \<times> MachineState)" where
  \<comment> \<open>\<^verbatim>\<open>state.s.pop()\<close>\<close>
  "s_pop st =
     (case list_pop (s st) of
        Inl e \<Rightarrow> Inl e
      | Inr (x, xs) \<Rightarrow> Inr (x, st\<lparr>s := xs\<rparr>))"

section \<open>Instruction handlers of \<^verbatim>\<open>evm.py\<close>\<close>

text \<open>
  Each handler \<^verbatim>\<open>f\<close> of the source is \<open>evm_f\<close> here. The source reuses the name
  \<^verbatim>\<open>shl\<close> for the handlers registered under SHL, SHR and SAR, and \<^verbatim>\<open>msize\<close> for those under
  MSIZE and GAS; they are \<open>evm_shl\<close>, \<open>evm_shr\<close>, \<open>evm_sar\<close>, \<open>evm_msize\<close> and \<open>evm_gas\<close>.
\<close>

definition JUMPDEST :: byte where
  "JUMPDEST = 0x5b"

definition evm_stop :: "MachineState \<Rightarrow> error + MachineState" where
  "evm_stop st = Inl HaltExecution"

definition evm_add :: "MachineState \<Rightarrow> error + MachineState" where
  "evm_add st =
     (case s_pop st of Inl e \<Rightarrow> Inl e | Inr (a, st1) \<Rightarrow>
      (case s_pop st1 of Inl e \<Rightarrow> Inl e | Inr (b, st2) \<Rightarrow>
      (case Int256_add a b of Inl e \<Rightarrow> Inl e | Inr r \<Rightarrow>
      Inr (st2\<lparr>s := s st2 @ [r], pc := pc st2 + 1\<rparr>))))"

definition evm_mul :: "MachineState \<Rightarrow> error + MachineState" where
  "evm_mul st =
     (case s_pop st of Inl e \<Rightarrow> Inl e | Inr (a, st1) \<Rightarrow>
      (case s_pop st1 of Inl e \<Rightarrow> Inl e | Inr (b, st2) \<Rightarrow>
      (case Int256_mul a b of Inl e \<Rightarrow> Inl e | Inr r \<Rightarrow>
      Inr (st2\<lparr>s := s st2 @ [r], pc := pc st2 + 1\<rparr>))))"

definition evm_div :: "MachineState \<Rightarrow> error + MachineState" where
  "evm_div st =
     (case s_pop st of Inl e \<Rightarrow> Inl e | Inr (a, st1) \<Rightarrow>
      (case s_pop st1 of Inl e \<Rightarrow> Inl e | Inr (b, st2) \<Rightarrow>
      (case Int256_div a b of Inl e \<Rightarrow> Inl e | Inr r \<Rightarrow>
      Inr (st2\<lparr>s := s st2 @ [r], pc := pc st2 + 1\<rparr>))))"

definition evm_sdiv :: "MachineState \<Rightarrow> error + MachineState" where
  "evm_sdiv st =
     (case s_pop st of Inl e \<Rightarrow> Inl e | Inr (a, st1) \<Rightarrow>
      (case s_pop st1 of Inl e \<Rightarrow> Inl e | Inr (b, st2) \<Rightarrow>
      (case Int256_sdiv a b of Inl e \<Rightarrow> Inl e | Inr r \<Rightarrow>
      Inr (st2\<lparr>s := s st2 @ [r], pc := pc st2 + 1\<rparr>))))"

definition evm_mod :: "MachineState \<Rightarrow> error + MachineState" where
  "evm_mod st =
     (case s_pop st of Inl e \<Rightarrow> Inl e | Inr (a, st1) \<Rightarrow>
      (case s_pop st1 of Inl e \<Rightarrow> Inl e | Inr (b, st2) \<Rightarrow>
      (case Int256_mod a b of Inl e \<Rightarrow> Inl e | Inr r \<Rightarrow>
      Inr (st2\<lparr>s := s st2 @ [r], pc := pc st2 + 1\<rparr>))))"

definition evm_smod :: "MachineState \<Rightarrow> error + MachineState" where
  "evm_smod st =
     (case s_pop st of Inl e \<Rightarrow> Inl e | Inr (a, st1) \<Rightarrow>
      (case s_pop st1 of Inl e \<Rightarrow> Inl e | Inr (b, st2) \<Rightarrow>
      (case Int256_smod a b of Inl e \<Rightarrow> Inl e | Inr r \<Rightarrow>
      Inr (st2\<lparr>s := s st2 @ [r], pc := pc st2 + 1\<rparr>))))"

definition evm_addmod :: "MachineState \<Rightarrow> error + MachineState" where
  "evm_addmod st =
     (case s_pop st of Inl e \<Rightarrow> Inl e | Inr (a, st1) \<Rightarrow>
      (case s_pop st1 of Inl e \<Rightarrow> Inl e | Inr (b, st2) \<Rightarrow>
      (case s_pop st2 of Inl e \<Rightarrow> Inl e | Inr (c, st3) \<Rightarrow>
      (case Int256_addmod a b c of Inl e \<Rightarrow> Inl e | Inr r \<Rightarrow>
      Inr (st3\<lparr>s := s st3 @ [r], pc := pc st3 + 1\<rparr>)))))"

definition evm_mulmod :: "MachineState \<Rightarrow> error + MachineState" where
  "evm_mulmod st =
     (case s_pop st of Inl e \<Rightarrow> Inl e | Inr (a, st1) \<Rightarrow>
      (case s_pop st1 of Inl e \<Rightarrow> Inl e | Inr (b, st2) \<Rightarrow>
      (case s_pop st2 of Inl e \<Rightarrow> Inl e | Inr (c, st3) \<Rightarrow>
      (case Int256_mulmod a b c of Inl e \<Rightarrow> Inl e | Inr r \<Rightarrow>
      Inr (st3\<lparr>s := s st3 @ [r], pc := pc st3 + 1\<rparr>)))))"

definition evm_exp :: "MachineState \<Rightarrow> error + MachineState" where
  "evm_exp st =
     (case s_pop st of Inl e \<Rightarrow> Inl e | Inr (a, st1) \<Rightarrow>
      (case s_pop st1 of Inl e \<Rightarrow> Inl e | Inr (b, st2) \<Rightarrow>
      (case Int256_exp a b of Inl e \<Rightarrow> Inl e | Inr r \<Rightarrow>
      Inr (st2\<lparr>s := s st2 @ [r], pc := pc st2 + 1\<rparr>))))"

definition evm_signextend :: "MachineState \<Rightarrow> error + MachineState" where
  "evm_signextend st =
     (case s_pop st of Inl e \<Rightarrow> Inl e | Inr (sz, st1) \<Rightarrow>
      (case s_pop st1 of Inl e \<Rightarrow> Inl e | Inr (target, st2) \<Rightarrow>
      (case Int256_signextend target sz of Inl e \<Rightarrow> Inl e | Inr r \<Rightarrow>
      Inr (st2\<lparr>s := s st2 @ [r], pc := pc st2 + 1\<rparr>))))"

definition evm_lt :: "MachineState \<Rightarrow> error + MachineState" where
  "evm_lt st =
     (case s_pop st of Inl e \<Rightarrow> Inl e | Inr (a, st1) \<Rightarrow>
      (case s_pop st1 of Inl e \<Rightarrow> Inl e | Inr (b, st2) \<Rightarrow>
      (case Int256_lt a b of Inl e \<Rightarrow> Inl e | Inr r \<Rightarrow>
      Inr (st2\<lparr>s := s st2 @ [r], pc := pc st2 + 1\<rparr>))))"

definition evm_gt :: "MachineState \<Rightarrow> error + MachineState" where
  "evm_gt st =
     (case s_pop st of Inl e \<Rightarrow> Inl e | Inr (a, st1) \<Rightarrow>
      (case s_pop st1 of Inl e \<Rightarrow> Inl e | Inr (b, st2) \<Rightarrow>
      (case Int256_gt a b of Inl e \<Rightarrow> Inl e | Inr r \<Rightarrow>
      Inr (st2\<lparr>s := s st2 @ [r], pc := pc st2 + 1\<rparr>))))"

definition evm_slt :: "MachineState \<Rightarrow> error + MachineState" where
  "evm_slt st =
     (case s_pop st of Inl e \<Rightarrow> Inl e | Inr (a, st1) \<Rightarrow>
      (case s_pop st1 of Inl e \<Rightarrow> Inl e | Inr (b, st2) \<Rightarrow>
      (case Int256_slt a b of Inl e \<Rightarrow> Inl e | Inr r \<Rightarrow>
      Inr (st2\<lparr>s := s st2 @ [r], pc := pc st2 + 1\<rparr>))))"

definition evm_sgt :: "MachineState \<Rightarrow> error + MachineState" where
  "evm_sgt st =
     (case s_pop st of Inl e \<Rightarrow> Inl e | Inr (a, st1) \<Rightarrow>
      (case s_pop st1 of Inl e \<Rightarrow> Inl e | Inr (b, st2) \<Rightarrow>
      (case Int256_sgt a b of Inl e \<Rightarrow> Inl e | Inr r \<Rightarrow>
      Inr (st2\<lparr>s := s st2 @ [r], pc := pc st2 + 1\<rparr>))))"

definition evm_eq :: "MachineState \<Rightarrow> error + MachineState" where
  "evm_eq st =
     (case s_pop st of Inl e \<Rightarrow> Inl e | Inr (a, st1) \<Rightarrow>
      (case s_pop st1 of Inl e \<Rightarrow> Inl e | Inr (b, st2) \<Rightarrow>
      (case Int256_eq a b of Inl e \<Rightarrow> Inl e | Inr r \<Rightarrow>
      Inr (st2\<lparr>s := s st2 @ [r], pc := pc st2 + 1\<rparr>))))"

definition evm_iszero :: "MachineState \<Rightarrow> error + MachineState" where
  "evm_iszero st =
     (case s_pop st of Inl e \<Rightarrow> Inl e | Inr (a, st1) \<Rightarrow>
      (case Int256_iszero a of Inl e \<Rightarrow> Inl e | Inr r \<Rightarrow>
      Inr (st1\<lparr>s := s st1 @ [r], pc := pc st1 + 1\<rparr>)))"

definition evm_and :: "MachineState \<Rightarrow> error + MachineState" where
  "evm_and st =
     (case s_pop st of Inl e \<Rightarrow> Inl e | Inr (a, st1) \<Rightarrow>
      (case s_pop st1 of Inl e \<Rightarrow> Inl e | Inr (b, st2) \<Rightarrow>
      (case Int256_and a b of Inl e \<Rightarrow> Inl e | Inr r \<Rightarrow>
      Inr (st2\<lparr>s := s st2 @ [r], pc := pc st2 + 1\<rparr>))))"

definition evm_or :: "MachineState \<Rightarrow> error + MachineState" where
  "evm_or st =
     (case s_pop st of Inl e \<Rightarrow> Inl e | Inr (a, st1) \<Rightarrow>
      (case s_pop st1 of Inl e \<Rightarrow> Inl e | Inr (b, st2) \<Rightarrow>
      (case Int256_or a b of Inl e \<Rightarrow> Inl e | Inr r \<Rightarrow>
      Inr (st2\<lparr>s := s st2 @ [r], pc := pc st2 + 1\<rparr>))))"

definition evm_xor :: "MachineState \<Rightarrow> error + MachineState" where
  "evm_xor st =
     (case s_pop st of Inl e \<Rightarrow> Inl e | Inr (a, st1) \<Rightarrow>
      (case s_pop st1 of Inl e \<Rightarrow> Inl e | Inr (b, st2) \<Rightarrow>
      (case Int256_xor a b of Inl e \<Rightarrow> Inl e | Inr r \<Rightarrow>
      Inr (st2\<lparr>s := s st2 @ [r], pc := pc st2 + 1\<rparr>))))"

definition evm_not :: "MachineState \<Rightarrow> error + MachineState" where
  "evm_not st =
     (case s_pop st of Inl e \<Rightarrow> Inl e | Inr (a, st1) \<Rightarrow>
      (case Int256_not a of Inl e \<Rightarrow> Inl e | Inr r \<Rightarrow>
      Inr (st1\<lparr>s := s st1 @ [r], pc := pc st1 + 1\<rparr>)))"

definition evm_byte :: "MachineState \<Rightarrow> error + MachineState" where
  "evm_byte st =
     (case s_pop st of Inl e \<Rightarrow> Inl e | Inr (idx, st1) \<Rightarrow>
      (case s_pop st1 of Inl e \<Rightarrow> Inl e | Inr (val, st2) \<Rightarrow>
      (case Int256_byte val (Int256_unsigned idx) of Inl e \<Rightarrow> Inl e | Inr r \<Rightarrow>
      Inr (st2\<lparr>s := s st2 @ [r], pc := pc st2 + 1\<rparr>))))"

definition evm_shl :: "MachineState \<Rightarrow> error + MachineState" where
  "evm_shl st =
     (case s_pop st of Inl e \<Rightarrow> Inl e | Inr (shift, st1) \<Rightarrow>
      (case s_pop st1 of Inl e \<Rightarrow> Inl e | Inr (val, st2) \<Rightarrow>
      (case Int256_shl val shift of Inl e \<Rightarrow> Inl e | Inr r \<Rightarrow>
      Inr (st2\<lparr>s := s st2 @ [r], pc := pc st2 + 1\<rparr>))))"

definition evm_shr :: "MachineState \<Rightarrow> error + MachineState" where
  "evm_shr st =
     (case s_pop st of Inl e \<Rightarrow> Inl e | Inr (shift, st1) \<Rightarrow>
      (case s_pop st1 of Inl e \<Rightarrow> Inl e | Inr (val, st2) \<Rightarrow>
      (case Int256_shr val shift of Inl e \<Rightarrow> Inl e | Inr r \<Rightarrow>
      Inr (st2\<lparr>s := s st2 @ [r], pc := pc st2 + 1\<rparr>))))"

definition evm_sar :: "MachineState \<Rightarrow> error + MachineState" where
  "evm_sar st =
     (case s_pop st of Inl e \<Rightarrow> Inl e | Inr (shift, st1) \<Rightarrow>
      (case s_pop st1 of Inl e \<Rightarrow> Inl e | Inr (val, st2) \<Rightarrow>
      (case Int256_sar val shift of Inl e \<Rightarrow> Inl e | Inr r \<Rightarrow>
      Inr (st2\<lparr>s := s st2 @ [r], pc := pc st2 + 1\<rparr>))))"

definition evm_pop :: "MachineState \<Rightarrow> error + MachineState" where
  "evm_pop st =
     (case s_pop st of Inl e \<Rightarrow> Inl e | Inr (a, st1) \<Rightarrow>
      Inr (st1\<lparr>pc := pc st1 + 1\<rparr>))"

definition evm_mload :: "MachineState \<Rightarrow> error + MachineState" where
  "evm_mload st =
     (case getitem (s st) (- 1) of Inl e \<Rightarrow> Inl e | Inr tp \<Rightarrow>
      let offset = Int256_unsigned tp in
      (case read_mem_256 st offset of Inl e \<Rightarrow> Inl e | Inr (w, st1) \<Rightarrow>
      (case setitem (s st1) (- 1) w of Inl e \<Rightarrow> Inl e | Inr stack \<Rightarrow>
      Inr (st1\<lparr>s := stack, i := max (i st1) ((offset + 32) div 32), pc := pc st1 + 1\<rparr>))))"

definition evm_mstore :: "MachineState \<Rightarrow> error + MachineState" where
  "evm_mstore st =
     (case s_pop st of Inl e \<Rightarrow> Inl e | Inr (a, st1) \<Rightarrow>
      let offset = Int256_unsigned a in
      (case s_pop st1 of Inl e \<Rightarrow> Inl e | Inr (val, st2) \<Rightarrow>
      let st3 = write_mem_256 st2 offset val in
      Inr (st3\<lparr>i := max (i st3) ((offset + 32) div 32), pc := pc st3 + 1\<rparr>)))"

definition evm_mstore8 :: "MachineState \<Rightarrow> error + MachineState" where
  "evm_mstore8 st =
     (case s_pop st of Inl e \<Rightarrow> Inl e | Inr (a, st1) \<Rightarrow>
      let offset = Int256_unsigned a in
      (case s_pop st1 of Inl e \<Rightarrow> Inl e | Inr (val, st2) \<Rightarrow>
      (case write_mem_8 st2 offset val of Inl e \<Rightarrow> Inl e | Inr st3 \<Rightarrow>
      Inr (st3\<lparr>i := max (i st3) ((offset + 1) div 32), pc := pc st3 + 1\<rparr>))))"

definition evm_jump :: "MachineState \<Rightarrow> error + MachineState" where
  "evm_jump st =
     (case s_pop st of Inl e \<Rightarrow> Inl e | Inr (a, st1) \<Rightarrow>
      let dest = Int256_unsigned a in
      (case getitem (code st1) dest of Inl e \<Rightarrow> Inl e | Inr b \<Rightarrow>
      if b \<noteq> JUMPDEST then Inl InvalidJumpDestination
      else Inr (st1\<lparr>pc := dest\<rparr>)))"

definition evm_jumpi :: "MachineState \<Rightarrow> error + MachineState" where
  \<comment> \<open>The condition is tested with \<^verbatim>\<open>cond != 0\<close> on the popped \<^verbatim>\<open>Int256\<close> object.\<close>
  "evm_jumpi st =
     (case s_pop st of Inl e \<Rightarrow> Inl e | Inr (a, st1) \<Rightarrow>
      let dest = Int256_unsigned a in
      (case getitem (code st1) dest of Inl e \<Rightarrow> Inl e | Inr b \<Rightarrow>
      if b \<noteq> JUMPDEST then Inl InvalidJumpDestination
      else
        (case s_pop st1 of Inl e \<Rightarrow> Inl e | Inr (cond, st2) \<Rightarrow>
        if Int256_ne_int cond 0 then Inr (st2\<lparr>pc := dest\<rparr>)
        else Inr (st2\<lparr>pc := pc st2 + 1\<rparr>))))"

definition evm_pc :: "MachineState \<Rightarrow> error + MachineState" where
  "evm_pc st =
     (case from_int (pc st) of Inl e \<Rightarrow> Inl e | Inr r \<Rightarrow>
      Inr (st\<lparr>s := s st @ [r], pc := pc st + 1\<rparr>))"

definition evm_msize :: "MachineState \<Rightarrow> error + MachineState" where
  "evm_msize st =
     (case from_int (i st * 32) of Inl e \<Rightarrow> Inl e | Inr r \<Rightarrow>
      Inr (st\<lparr>s := s st @ [r], pc := pc st + 1\<rparr>))"

definition evm_gas :: "MachineState \<Rightarrow> error + MachineState" where
  "evm_gas st =
     (case from_int (gas st) of Inl e \<Rightarrow> Inl e | Inr r \<Rightarrow>
      Inr (st\<lparr>s := s st @ [r], pc := pc st + 1\<rparr>))"

definition evm_jumpdest :: "MachineState \<Rightarrow> error + MachineState" where
  "evm_jumpdest st = Inr (st\<lparr>pc := pc st + 1\<rparr>)"

definition push_n :: "int \<Rightarrow> MachineState \<Rightarrow> error + MachineState" where
  \<comment> \<open>The slice is shorter than \<open>n\<close> when the program ends early; \<^verbatim>\<open>Int256(data)\<close> then raises.\<close>
  "push_n n st =
     (let data = replicate (nat (32 - n)) 0 @ slice (code st) (pc st + 1) (pc st + 1 + n) in
      (case Int256_init data of Inl e \<Rightarrow> Inl e | Inr r \<Rightarrow>
      Inr (st\<lparr>s := s st @ [r], pc := pc st + (1 + n)\<rparr>)))"

definition dup_n :: "int \<Rightarrow> MachineState \<Rightarrow> error + MachineState" where
  "dup_n n st =
     (case getitem (s st) (- n) of Inl e \<Rightarrow> Inl e | Inr r \<Rightarrow>
      Inr (st\<lparr>s := s st @ [r], pc := pc st + 1\<rparr>))"

definition swap_n :: "int \<Rightarrow> MachineState \<Rightarrow> error + MachineState" where
  "swap_n n st =
     (case getitem (s st) (- 1) of Inl e \<Rightarrow> Inl e | Inr x \<Rightarrow>
      (case getitem (s st) (- (n + 1)) of Inl e \<Rightarrow> Inl e | Inr y \<Rightarrow>
      (case setitem (s st) (- 1) y of Inl e \<Rightarrow> Inl e | Inr stack1 \<Rightarrow>
      (case setitem stack1 (- (n + 1)) x of Inl e \<Rightarrow> Inl e | Inr stack2 \<Rightarrow>
      Inr (st\<lparr>s := stack2, pc := pc st + 1\<rparr>)))))"

section \<open>Dispatch table and fetch loop\<close>

definition fixed_instructions :: "(byte \<times> (MachineState \<Rightarrow> error + MachineState)) list" where
  \<comment> \<open>The handlers registered by the \<^verbatim>\<open>@instruction\<close> decorator, in source order.
      No handler is registered under SUB (0x03).\<close>
  "fixed_instructions =
     [(0x00, evm_stop), (0x01, evm_add), (0x02, evm_mul), (0x04, evm_div), (0x05, evm_sdiv),
      (0x06, evm_mod), (0x07, evm_smod), (0x08, evm_addmod), (0x09, evm_mulmod),
      (0x0a, evm_exp), (0x0b, evm_signextend),
      (0x10, evm_lt), (0x11, evm_gt), (0x12, evm_slt), (0x13, evm_sgt), (0x14, evm_eq),
      (0x15, evm_iszero), (0x16, evm_and), (0x17, evm_or), (0x18, evm_xor), (0x19, evm_not),
      (0x1a, evm_byte), (0x1b, evm_shl), (0x1c, evm_shr), (0x1d, evm_sar),
      (0x50, evm_pop), (0x51, evm_mload), (0x52, evm_mstore), (0x53, evm_mstore8),
      (0x56, evm_jump), (0x57, evm_jumpi), (0x58, evm_pc), (0x59, evm_msize),
      (0x5a, evm_gas), (0x5b, evm_jumpdest)]"

definition INSTRUCTION_MAP :: "byte \<rightharpoonup> (MachineState \<Rightarrow> error + MachineState)" where
  \<comment> \<open>\<^verbatim>\<open>_INSTRUCTION_MAP\<close> once the module is loaded: the decorated handlers, then the three
      loops registering \<^verbatim>\<open>push_n(ii + 1)\<close>, \<^verbatim>\<open>dup_n(ii + 1)\<close> and \<^verbatim>\<open>swap_n(ii + 1)\<close>.\<close>
  "INSTRUCTION_MAP =
     map_of (fixed_instructions
             @ map (\<lambda>ii. (0x60 + of_nat ii, push_n (int ii + 1))) [0..<32]
             @ map (\<lambda>ii. (0x80 + of_nat ii, dup_n (int ii + 1))) [0..<16]
             @ map (\<lambda>ii. (0x90 + of_nat ii, swap_n (int ii + 1))) [0..<16])"

definition execute :: "MachineState \<Rightarrow> byte \<Rightarrow> error + MachineState" where
  \<comment> \<open>\<^verbatim>\<open>_INSTRUCTION_MAP[m](state)\<close>: a missing key raises KeyError.\<close>
  "execute st b =
     (case INSTRUCTION_MAP b of
        None \<Rightarrow> Inl KeyError
      | Some f \<Rightarrow> f st)"

definition running :: "MachineState \<Rightarrow> bool" where
  \<comment> \<open>The condition of the loop in \<^verbatim>\<open>main\<close>.\<close>
  "running st \<longleftrightarrow> pc st < int (length (code st))"

definition step :: "MachineState \<Rightarrow> error + MachineState" where
  \<comment> \<open>One iteration of the loop body: fetch the byte at \<open>pc\<close>, dispatch it.\<close>
  "step st =
     (case getitem (code st) (pc st) of
        Inl e \<Rightarrow> Inl e
      | Inr b \<Rightarrow> execute st b)"

fun run :: "nat \<Rightarrow> MachineState \<Rightarrow> error + MachineState" where
  \<comment> \<open>The loop of \<^verbatim>\<open>main\<close>, cut after \<open>n\<close> iterations: the state when the loop has ended or
      the \<open>n\<close> iterations are used up, or the exception that escaped.\<close>
  "run 0 st = Inr st"
| "run (Suc n) st =
     (if running st then
        (case step st of
           Inl e \<Rightarrow> Inl e
         | Inr st1 \<Rightarrow> run n st1)
      else Inr st)"

section \<open>Vocabulary of the properties\<close>






definition stack_required :: "byte \<Rightarrow> nat" where
  \<comment> \<open>Number of stack words the handler registered under \<open>b\<close> pops or reads:
      \<open>n\<close> for DUPn, \<open>n + 1\<close> for SWAPn.\<close>
  "stack_required b =
     (let k = unat b in
      if k \<in> {0x08, 0x09} then 3
      else if k \<in> {0x01, 0x02, 0x04, 0x05, 0x06, 0x07, 0x0a, 0x0b,
                     0x10, 0x11, 0x12, 0x13, 0x14, 0x16, 0x17, 0x18,
                     0x1a, 0x1b, 0x1c, 0x1d, 0x52, 0x53, 0x57} then 2
      else if k \<in> {0x15, 0x19, 0x50, 0x51, 0x56} then 1
      else if 0x80 \<le> k \<and> k \<le> 0x8f then k - 0x7f
      else if 0x90 \<le> k \<and> k \<le> 0x9f then k - 0x8e
      else 0)"

definition plain_handler :: "(MachineState \<Rightarrow> error + MachineState) \<Rightarrow> bool" where
  \<comment> \<open>A handler that, when it returns, has advanced \<open>pc\<close> by 1 and left program, memory
      and \<open>i\<close> alone.\<close>
  "plain_handler f \<longleftrightarrow>
     (\<forall>st st1. f st = Inr st1 \<longrightarrow>
        code st1 = code st \<and> m st1 = m st \<and> i st1 = i st \<and> pc st1 = pc st + 1)"

definition underflows :: "nat \<Rightarrow> (MachineState \<Rightarrow> error + MachineState) \<Rightarrow> bool" where
  \<comment> \<open>A handler that raises IndexError on every stack of fewer than \<open>k\<close> words.\<close>
  "underflows k f \<longleftrightarrow> (\<forall>st. length (s st) < k \<longrightarrow> f st = Inl IndexError)"

definition initial_state :: "byte list \<Rightarrow> MachineState" where
  \<comment> \<open>\<^verbatim>\<open>MachineState()\<close> with its class defaults (as \<^verbatim>\<open>main\<close> finds them in a fresh
      process), then \<^verbatim>\<open>state.code = c\<close>.\<close>
  "initial_state c = \<lparr>code = c, gas = 0, pc = 0, m = Map.empty, i = 0, s = []\<rparr>"

section \<open>Properties of the word\<close>

subsection \<open>Big-endian encoding and decoding\<close>

lemma from_bytes_big_snoc: "from_bytes_big (bs @ [b]) = from_bytes_big bs * 256 + uint b"
  by (simp add: from_bytes_big_def)

lemma uint_byte_lt: "uint (b :: byte) < 256"
  using uint_bounded [of b] by simp

lemma from_bytes_big_nonneg: "0 \<le> from_bytes_big bs"
  by (induction bs rule: rev_induct) (simp_all add: from_bytes_big_snoc from_bytes_big_def)

lemma from_bytes_big_less: "from_bytes_big bs < 256 ^ length bs"
proof (induction bs rule: rev_induct)
  case Nil
  then show ?case by (simp add: from_bytes_big_def)
next
  case (snoc b bs)
  have "uint b < 256" by (rule uint_byte_lt)
  with snoc show ?case by (simp add: from_bytes_big_snoc)
qed

lemma to_bytes_from_bytes: "to_bytes_big (length bs) (from_bytes_big bs) = bs"
proof (induction bs rule: rev_induct)
  case Nil
  then show ?case by simp
next
  case (snoc b bs)
  have lt: "uint b < 256" by (rule uint_byte_lt)
  have ge: "0 \<le> uint b" by simp
  have d: "(from_bytes_big bs * 256 + uint b) div 256 = from_bytes_big bs"
    using lt ge by simp
  have r: "(from_bytes_big bs * 256 + uint b) mod 256 = uint b"
    using lt ge by simp
  have w: "(word_of_int (uint b) :: byte) = b" by simp
  show ?case using snoc by (simp only: length_append_singleton from_bytes_big_snoc to_bytes_big.simps d r w)
qed

lemma from_bytes_big_Cons:
  "from_bytes_big (b # bs) = uint b * 256 ^ length bs + from_bytes_big bs"
proof (induction bs rule: rev_induct)
  case Nil
  then show ?case by (simp add: from_bytes_big_def)
next
  case (snoc x xs)
  have "from_bytes_big (b # xs @ [x]) = from_bytes_big ((b # xs) @ [x])" by simp
  also have "\<dots> = from_bytes_big (b # xs) * 256 + uint x" by (rule from_bytes_big_snoc)
  finally show ?case using snoc by (simp add: from_bytes_big_snoc algebra_simps)
qed

lemma msb_iff:
  assumes "bs \<noteq> []"
  shows "128 \<le> uint (hd bs) \<longleftrightarrow> 256 ^ length bs \<le> 2 * from_bytes_big bs"
proof -
  from assms obtain b rest where bs: "bs = b # rest" by (cases bs) auto
  define P where "P = (256::int) ^ length rest"
  define r where "r = from_bytes_big rest"
  have P: "0 < P" by (simp add: P_def)
  have r: "0 \<le> r" "r < P" using from_bytes_big_nonneg from_bytes_big_less by (simp_all add: r_def P_def)
  have eq: "from_bytes_big bs = uint b * P + r" by (simp add: bs from_bytes_big_Cons P_def r_def)
  have len: "(256::int) ^ length bs = 256 * P" by (simp add: bs P_def)
  have h: "hd bs = b" by (simp add: bs)
  have "128 \<le> uint b \<longleftrightarrow> 256 * P \<le> 2 * (uint b * P + r)"
  proof (cases "128 \<le> uint b")
    case True
    then have "128 * P \<le> uint b * P" using P by (simp add: mult_right_mono)
    with r have "256 * P \<le> 2 * (uint b * P + r)" by presburger
    with True show ?thesis by simp
  next
    case False
    then have "uint b \<le> 127" by simp
    then have "uint b * P \<le> 127 * P" using P by (simp add: mult_right_mono)
    with r have "\<not> 256 * P \<le> 2 * (uint b * P + r)" by presburger
    with False show ?thesis by simp
  qed
  then show ?thesis unfolding h eq len .
qed

lemma pow256_32: "(256::int) ^ 32 = 2 ^ 256"
  by simp

lemma from_bytes_to_bytes:
  "0 \<le> v \<Longrightarrow> v < 256 ^ n \<Longrightarrow> from_bytes_big (to_bytes_big n v) = v"
proof (induction n arbitrary: v)
  case 0
  then show ?case by (simp add: from_bytes_big_def)
next
  case (Suc n)
  have d: "0 \<le> v div 256" "v div 256 < 256 ^ n" using Suc.prems by auto
  have u: "uint (word_of_int (v mod 256) :: byte) = v mod 256"
    by (simp add: uint_word_of_int)
  show ?case
    by (simp add: from_bytes_big_snoc Suc.IH [OF d] u)
qed

lemma length_to_bytes_big: "length (to_bytes_big n v) = n"
  by (induction n arbitrary: v) auto

lemma Int256_unsigned_nonneg: "0 \<le> Int256_unsigned w"
  by (simp add: Int256_unsigned_def int_from_bytes_def from_bytes_big_nonneg)

text \<open>
  Claim C10. For every word \<open>w\<close> (an \<^verbatim>\<open>Int256\<close> always holds 32 bytes) the unsigned view lies
  in \<open>[0, 2^256)\<close>, the signed view is congruent to it modulo \<open>2^256\<close>, equals it minus
  \<open>2^256\<close> exactly when the unsigned view is at least \<open>2^255\<close> and equals it otherwise, and
  \<open>from_int\<close> of the unsigned view rebuilds \<open>w\<close> byte for byte.
\<close>

theorem signed_unsigned_views:
  assumes "length (bytes_value w) = 32"
  shows "0 \<le> Int256_unsigned w \<and> Int256_unsigned w < 2 ^ 256
       \<and> Int256_signed w mod 2 ^ 256 = Int256_unsigned w mod 2 ^ 256
       \<and> (Int256_signed w = Int256_unsigned w - 2 ^ 256 \<longleftrightarrow> 2 ^ 255 \<le> Int256_unsigned w)
       \<and> (Int256_signed w = Int256_unsigned w \<longleftrightarrow> Int256_unsigned w < 2 ^ 255)
       \<and> from_int (Int256_unsigned w) = Inr w"
proof -
  define bs where "bs = bytes_value w"
  have len: "length bs = 32" using assms by (simp add: bs_def)
  then have ne: "bs \<noteq> []" by auto
  have u: "Int256_unsigned w = from_bytes_big bs"
    by (simp add: Int256_unsigned_def int_from_bytes_def bs_def)
  have lo: "0 \<le> from_bytes_big bs" by (rule from_bytes_big_nonneg)
  have hi: "from_bytes_big bs < 2 ^ 256"
    using from_bytes_big_less [of bs] len by simp
  have msb: "128 \<le> uint (hd bs) \<longleftrightarrow> 2 ^ 255 \<le> from_bytes_big bs"
    using msb_iff [OF ne] len by simp
  have sg: "Int256_signed w = (if 2 ^ 255 \<le> from_bytes_big bs then from_bytes_big bs - 2 ^ 256 else from_bytes_big bs)"
    using ne len msb by (simp add: Int256_signed_def int_from_bytes_def bs_def [symmetric])
  have rt: "from_int (from_bytes_big bs) = Inr w"
    using lo hi to_bytes_from_bytes [of bs] len
    by (simp add: from_int_def int_to_bytes_def Int256_init_def bs_def)
  show ?thesis
    using lo hi rt by (simp add: u sg)
qed

theorem signed_unsigned_views_witness:
  "length (bytes_value (MkInt256 (0x80 # replicate 30 0 @ [7]))) = 32
   \<and> Int256_unsigned (MkInt256 (0x80 # replicate 30 0 @ [7])) = 2 ^ 255 + 7
   \<and> Int256_signed (MkInt256 (0x80 # replicate 30 0 @ [7])) = 2 ^ 255 + 7 - 2 ^ 256
   \<and> from_int (2 ^ 255 + 7) = Inr (MkInt256 (0x80 # replicate 30 0 @ [7]))"
proof -
  have h: "length (bytes_value (MkInt256 (0x80 # replicate 30 0 @ [7]))) = 32" by simp
  have u: "Int256_unsigned (MkInt256 (0x80 # replicate 30 0 @ [7])) = 2 ^ 255 + 7" by code_simp
  from signed_unsigned_views [OF h] show ?thesis unfolding u by simp
qed

subsection \<open>Bitwise complement\<close>

text \<open>
  \<open>Int256_not\<close> returns the complement \<open>2^256 - 1 - u\<close> for a word whose unsigned view \<open>u\<close> is
  below \<open>2^255\<close>, and raises for every other word.
\<close>

lemma complement_mod:
  fixes u M :: int
  assumes "0 \<le> u" and "u < M"
  shows "(- u - 1) mod M = M - 1 - u"
proof -
  have "(- u - 1) mod M = (- u - 1 + M) mod M" by simp
  also have "\<dots> = - u - 1 + M" using assms by (intro mod_pos_pos_trivial) simp_all
  finally show ?thesis by simp
qed

lemma not_low_words:
  assumes "length (bytes_value w) = 32" and "Int256_unsigned w < 2 ^ 255"
  shows "\<exists>r. Int256_not w = Inr r \<and> Int256_unsigned r = 2 ^ 256 - 1 - Int256_unsigned w"
proof -
  define u where "u = Int256_unsigned w"
  have u: "0 \<le> u" "u < 2 ^ 255" using assms(2) by (simp_all add: u_def Int256_unsigned_nonneg)
  have md: "(- u - 1) mod 2 ^ 256 = 2 ^ 256 - 1 - u"
    using u complement_mod [of u "2 ^ 256"] by simp
  define r where "r = MkInt256 (to_bytes_big 32 (2 ^ 256 - 1 - u))"
  have "Int256_not w = Inr r"
    using u md by (simp add: Int256_not_def from_signed_int_def int_to_bytes_def
        Int256_init_def length_to_bytes_big r_def u_def [symmetric])
  moreover have "Int256_unsigned r = 2 ^ 256 - 1 - u"
    using u from_bytes_to_bytes [of "2 ^ 256 - 1 - u" 32]
    by (simp add: r_def Int256_unsigned_def int_from_bytes_def)
  ultimately show ?thesis by (auto simp: u_def)
qed

lemma not_high_words:
  assumes "2 ^ 255 \<le> Int256_unsigned w"
  shows "Int256_not w = Inl OverflowError"
  using assms by (simp add: Int256_not_def from_signed_int_def int_to_bytes_def)

text \<open>
  Claim C8. \<open>not\<close> is to return the complement of all 256 bits for every word and never fail.
  The method encodes \<^verbatim>\<open>~self.unsigned\<close>, a value in \<open>[-2^256, -1]\<close>, as a signed 32-byte
  number, which has room for \<open>[-2^255, 2^255)\<close> only: on the word \<open>2^255\<close> (first byte
  \<open>0x80\<close>, the rest zero) it raises OverflowError where the complement \<open>2^255 - 1\<close> is due.
\<close>

theorem not_high_bit_overflows:
  "Int256_unsigned (MkInt256 (0x80 # replicate 31 0)) = 2 ^ 255
   \<and> Int256_not (MkInt256 (0x80 # replicate 31 0)) = Inl OverflowError"
  by code_simp

subsection \<open>Signed division\<close>

text \<open>The two special cases of \<open>Int256_sdiv\<close> do not touch the float division.\<close>

lemma sdiv_by_zero: "Int256_signed other = 0 \<Longrightarrow> Int256_sdiv w other = from_int 0"
  by (simp add: Int256_sdiv_def)

lemma sdiv_min_by_minus_one:
  "Int256_signed w = - (2 ^ 255) \<Longrightarrow> Int256_signed other = - 1 \<Longrightarrow>
     Int256_sdiv w other = from_signed_int (- (2 ^ 255))"
  by (simp add: Int256_sdiv_def)

text \<open>
  Claim C7. \<open>sdiv\<close> is to be exact signed division truncated towards zero. The general branch
  divides with \<^verbatim>\<open>/\<close>, so the quotient is rounded to a 53-bit float before it is truncated:
  \<open>2^54 + 1\<close> divided by \<open>1\<close> yields \<open>2^54\<close>.
\<close>

theorem sdiv_rounds_through_float:
  "Int256_signed (MkInt256 (replicate 25 0 @ [0x40, 0, 0, 0, 0, 0, 1])) = 2 ^ 54 + 1
   \<and> Int256_signed (MkInt256 (replicate 31 0 @ [1])) = 1
   \<and> Int256_sdiv (MkInt256 (replicate 25 0 @ [0x40, 0, 0, 0, 0, 0, 1]))
                  (MkInt256 (replicate 31 0 @ [1]))
       = from_int (2 ^ 54)
   \<and> from_int (2 ^ 54) \<noteq> from_int (2 ^ 54 + 1)"
  by code_simp

section \<open>Properties of the interpreter\<close>

subsection \<open>Effects of the handlers\<close>

lemma s_pop_Inr:
  "s_pop st = Inr (x, st1) \<Longrightarrow> st1 = st\<lparr>s := butlast (s st)\<rparr> \<and> s st \<noteq> [] \<and> x = last (s st)"
  by (auto simp: s_pop_def list_pop_def split: if_splits)

lemma s_pop_cases:
  "s_pop st = (if s st = [] then Inl IndexError else Inr (last (s st), st\<lparr>s := butlast (s st)\<rparr>))"
  by (simp add: s_pop_def list_pop_def)

lemma butlast_short2: "length xs < 2 \<Longrightarrow> xs \<noteq> [] \<Longrightarrow> butlast xs = []"
  by (cases xs) auto

lemma butlast_short3:
  "length xs < 3 \<Longrightarrow> xs \<noteq> [] \<Longrightarrow> butlast xs \<noteq> [] \<Longrightarrow> butlast (butlast xs) = []"
  by (cases xs rule: rev_cases; simp; cases "butlast xs" rule: rev_cases; simp)

lemma getitem_error: "getitem xs k = Inl e \<Longrightarrow> e = IndexError"
  by (auto simp: getitem_def Let_def split: if_splits)

lemma evm_add_plain: "plain_handler evm_add"
  by (auto simp: plain_handler_def evm_add_def split: sum.splits prod.splits dest!: s_pop_Inr)

lemma evm_mul_plain: "plain_handler evm_mul"
  by (auto simp: plain_handler_def evm_mul_def split: sum.splits prod.splits dest!: s_pop_Inr)

lemma evm_div_plain: "plain_handler evm_div"
  by (auto simp: plain_handler_def evm_div_def split: sum.splits prod.splits dest!: s_pop_Inr)

lemma evm_sdiv_plain: "plain_handler evm_sdiv"
  by (auto simp: plain_handler_def evm_sdiv_def split: sum.splits prod.splits dest!: s_pop_Inr)

lemma evm_mod_plain: "plain_handler evm_mod"
  by (auto simp: plain_handler_def evm_mod_def split: sum.splits prod.splits dest!: s_pop_Inr)

lemma evm_smod_plain: "plain_handler evm_smod"
  by (auto simp: plain_handler_def evm_smod_def split: sum.splits prod.splits dest!: s_pop_Inr)

lemma evm_exp_plain: "plain_handler evm_exp"
  by (auto simp: plain_handler_def evm_exp_def split: sum.splits prod.splits dest!: s_pop_Inr)

lemma evm_signextend_plain: "plain_handler evm_signextend"
  by (auto simp: plain_handler_def evm_signextend_def split: sum.splits prod.splits dest!: s_pop_Inr)

lemma evm_lt_plain: "plain_handler evm_lt"
  by (auto simp: plain_handler_def evm_lt_def split: sum.splits prod.splits dest!: s_pop_Inr)

lemma evm_gt_plain: "plain_handler evm_gt"
  by (auto simp: plain_handler_def evm_gt_def split: sum.splits prod.splits dest!: s_pop_Inr)

lemma evm_slt_plain: "plain_handler evm_slt"
  by (auto simp: plain_handler_def evm_slt_def split: sum.splits prod.splits dest!: s_pop_Inr)

lemma evm_sgt_plain: "plain_handler evm_sgt"
  by (auto simp: plain_handler_def evm_sgt_def split: sum.splits prod.splits dest!: s_pop_Inr)

lemma evm_eq_plain: "plain_handler evm_eq"
  by (auto simp: plain_handler_def evm_eq_def split: sum.splits prod.splits dest!: s_pop_Inr)

lemma evm_and_plain: "plain_handler evm_and"
  by (auto simp: plain_handler_def evm_and_def split: sum.splits prod.splits dest!: s_pop_Inr)

lemma evm_or_plain: "plain_handler evm_or"
  by (auto simp: plain_handler_def evm_or_def split: sum.splits prod.splits dest!: s_pop_Inr)

lemma evm_xor_plain: "plain_handler evm_xor"
  by (auto simp: plain_handler_def evm_xor_def split: sum.splits prod.splits dest!: s_pop_Inr)

lemma evm_byte_plain: "plain_handler evm_byte"
  by (auto simp: plain_handler_def evm_byte_def split: sum.splits prod.splits dest!: s_pop_Inr)

lemma evm_shl_plain: "plain_handler evm_shl"
  by (auto simp: plain_handler_def evm_shl_def split: sum.splits prod.splits dest!: s_pop_Inr)

lemma evm_shr_plain: "plain_handler evm_shr"
  by (auto simp: plain_handler_def evm_shr_def split: sum.splits prod.splits dest!: s_pop_Inr)

lemma evm_sar_plain: "plain_handler evm_sar"
  by (auto simp: plain_handler_def evm_sar_def split: sum.splits prod.splits dest!: s_pop_Inr)

lemma evm_addmod_plain: "plain_handler evm_addmod"
  by (auto simp: plain_handler_def evm_addmod_def split: sum.splits prod.splits dest!: s_pop_Inr)

lemma evm_mulmod_plain: "plain_handler evm_mulmod"
  by (auto simp: plain_handler_def evm_mulmod_def split: sum.splits prod.splits dest!: s_pop_Inr)

lemma evm_iszero_plain: "plain_handler evm_iszero"
  by (auto simp: plain_handler_def evm_iszero_def split: sum.splits prod.splits dest!: s_pop_Inr)

lemma evm_not_plain: "plain_handler evm_not"
  by (auto simp: plain_handler_def evm_not_def split: sum.splits prod.splits dest!: s_pop_Inr)

lemma evm_pop_plain: "plain_handler evm_pop"
  by (auto simp: plain_handler_def evm_pop_def split: sum.splits prod.splits dest!: s_pop_Inr)

lemma evm_pc_plain: "plain_handler evm_pc"
  by (auto simp: plain_handler_def evm_pc_def split: sum.splits)

lemma evm_msize_plain: "plain_handler evm_msize"
  by (auto simp: plain_handler_def evm_msize_def split: sum.splits)

lemma evm_gas_plain: "plain_handler evm_gas"
  by (auto simp: plain_handler_def evm_gas_def split: sum.splits)

lemma evm_stop_plain: "plain_handler evm_stop"
  by (simp add: plain_handler_def evm_stop_def)

lemma evm_jumpdest_plain: "plain_handler evm_jumpdest"
  by (auto simp: plain_handler_def evm_jumpdest_def)

lemma dup_n_plain: "plain_handler (dup_n n)"
  by (auto simp: plain_handler_def dup_n_def split: sum.splits)

lemma swap_n_plain: "plain_handler (swap_n n)"
  by (auto simp: plain_handler_def swap_n_def split: sum.splits)

lemma push_n_effect:
  "push_n n st = Inr st1 \<Longrightarrow>
     code st1 = code st \<and> m st1 = m st \<and> i st1 = i st \<and> pc st1 = pc st + (1 + n)"
  by (auto simp: push_n_def Let_def split: sum.splits)

lemma evm_jump_effect:
  "evm_jump st = Inr st1 \<Longrightarrow>
     code st1 = code st \<and> m st1 = m st \<and> i st1 = i st \<and> s st \<noteq> [] \<and>
     pc st1 = Int256_unsigned (last (s st)) \<and> getitem (code st) (pc st1) = Inr JUMPDEST"
  by (auto simp: evm_jump_def Let_def split: sum.splits prod.splits if_splits dest!: s_pop_Inr)

lemma evm_jumpi_effect:
  "evm_jumpi st = Inr st1 \<Longrightarrow>
     code st1 = code st \<and> m st1 = m st \<and> i st1 = i st \<and> s st \<noteq> [] \<and>
     pc st1 = Int256_unsigned (last (s st)) \<and> getitem (code st) (pc st1) = Inr JUMPDEST"
  by (auto simp: evm_jumpi_def Int256_ne_int_def Let_def
           split: sum.splits prod.splits if_splits dest!: s_pop_Inr)

subsection \<open>Stack underflow in the handlers\<close>

lemma evm_add_underflow: "underflows 2 evm_add"
  by (auto simp: underflows_def evm_add_def s_pop_cases butlast_short2)

lemma evm_mul_underflow: "underflows 2 evm_mul"
  by (auto simp: underflows_def evm_mul_def s_pop_cases butlast_short2)

lemma evm_div_underflow: "underflows 2 evm_div"
  by (auto simp: underflows_def evm_div_def s_pop_cases butlast_short2)

lemma evm_sdiv_underflow: "underflows 2 evm_sdiv"
  by (auto simp: underflows_def evm_sdiv_def s_pop_cases butlast_short2)

lemma evm_mod_underflow: "underflows 2 evm_mod"
  by (auto simp: underflows_def evm_mod_def s_pop_cases butlast_short2)

lemma evm_smod_underflow: "underflows 2 evm_smod"
  by (auto simp: underflows_def evm_smod_def s_pop_cases butlast_short2)

lemma evm_exp_underflow: "underflows 2 evm_exp"
  by (auto simp: underflows_def evm_exp_def s_pop_cases butlast_short2)

lemma evm_signextend_underflow: "underflows 2 evm_signextend"
  by (auto simp: underflows_def evm_signextend_def s_pop_cases butlast_short2)

lemma evm_lt_underflow: "underflows 2 evm_lt"
  by (auto simp: underflows_def evm_lt_def s_pop_cases butlast_short2)

lemma evm_gt_underflow: "underflows 2 evm_gt"
  by (auto simp: underflows_def evm_gt_def s_pop_cases butlast_short2)

lemma evm_slt_underflow: "underflows 2 evm_slt"
  by (auto simp: underflows_def evm_slt_def s_pop_cases butlast_short2)

lemma evm_sgt_underflow: "underflows 2 evm_sgt"
  by (auto simp: underflows_def evm_sgt_def s_pop_cases butlast_short2)

lemma evm_eq_underflow: "underflows 2 evm_eq"
  by (auto simp: underflows_def evm_eq_def s_pop_cases butlast_short2)

lemma evm_and_underflow: "underflows 2 evm_and"
  by (auto simp: underflows_def evm_and_def s_pop_cases butlast_short2)

lemma evm_or_underflow: "underflows 2 evm_or"
  by (auto simp: underflows_def evm_or_def s_pop_cases butlast_short2)

lemma evm_xor_underflow: "underflows 2 evm_xor"
  by (auto simp: underflows_def evm_xor_def s_pop_cases butlast_short2)

lemma evm_byte_underflow: "underflows 2 evm_byte"
  by (auto simp: underflows_def evm_byte_def s_pop_cases butlast_short2)

lemma evm_shl_underflow: "underflows 2 evm_shl"
  by (auto simp: underflows_def evm_shl_def s_pop_cases butlast_short2)

lemma evm_shr_underflow: "underflows 2 evm_shr"
  by (auto simp: underflows_def evm_shr_def s_pop_cases butlast_short2)

lemma evm_sar_underflow: "underflows 2 evm_sar"
  by (auto simp: underflows_def evm_sar_def s_pop_cases butlast_short2)

lemma evm_mstore_underflow: "underflows 2 evm_mstore"
  by (auto simp: underflows_def evm_mstore_def s_pop_cases butlast_short2)

lemma evm_mstore8_underflow: "underflows 2 evm_mstore8"
  by (auto simp: underflows_def evm_mstore8_def s_pop_cases butlast_short2)

lemma evm_addmod_underflow: "underflows 3 evm_addmod"
  by (auto simp: underflows_def evm_addmod_def s_pop_cases butlast_short2 butlast_short3)

lemma evm_mulmod_underflow: "underflows 3 evm_mulmod"
  by (auto simp: underflows_def evm_mulmod_def s_pop_cases butlast_short2 butlast_short3)

lemma evm_iszero_underflow: "underflows (Suc 0) evm_iszero"
  by (auto simp: underflows_def evm_iszero_def s_pop_cases)

lemma evm_not_underflow: "underflows (Suc 0) evm_not"
  by (auto simp: underflows_def evm_not_def s_pop_cases)

lemma evm_pop_underflow: "underflows (Suc 0) evm_pop"
  by (auto simp: underflows_def evm_pop_def s_pop_cases)

lemma evm_jump_underflow: "underflows (Suc 0) evm_jump"
  by (auto simp: underflows_def evm_jump_def s_pop_cases)

lemma evm_mload_underflow: "underflows (Suc 0) evm_mload"
  by (auto simp: underflows_def evm_mload_def getitem_def)

lemma dup_n_underflow: "underflows (Suc ii) (dup_n (int ii + 1))"
  by (auto simp: underflows_def dup_n_def getitem_def)

lemma swap_n_underflow: "underflows (Suc (Suc ii)) (swap_n (int ii + 1))"
  by (auto simp: underflows_def swap_n_def getitem_def)

lemma evm_jumpi_underflow:
  "length (s st) < 2 \<Longrightarrow>
     evm_jumpi st = Inl IndexError \<or> evm_jumpi st = Inl InvalidJumpDestination"
  by (auto simp: evm_jumpi_def s_pop_cases butlast_short2 Let_def
           split: sum.splits dest: getitem_error)

lemma evm_jumpi_empty: "s st = [] \<Longrightarrow> evm_jumpi st = Inl IndexError"
  by (simp add: evm_jumpi_def s_pop_cases)

subsection \<open>Memory accesses\<close>

lemma read_fold:
  "foldl (\<lambda>mm k. case mm k of None \<Rightarrow> mm(k \<mapsto> 0) | Some v \<Rightarrow> mm) mem ks a =
     (case mem a of Some v \<Rightarrow> Some v
      | None \<Rightarrow> if a \<in> set ks then Some (0::byte) else None)"
  by (induction ks arbitrary: mem) (auto split: option.splits)

lemma read_mem_256_effect:
  assumes "read_mem_256 st offset = Inr (w, st1)"
  shows "code st1 = code st \<and> i st1 = i st \<and> s st1 = s st \<and> pc st1 = pc st \<and>
         (\<forall>a v. m st a = Some v \<longrightarrow> m st1 a = Some v)"
  using assms
  by (auto simp: read_mem_256_def Let_def read_fold split: sum.splits)

lemma evm_mload_effect:
  assumes "evm_mload st = Inr st1"
  shows "code st1 = code st \<and> i st \<le> i st1 \<and> pc st1 = pc st + 1 \<and>
         (\<forall>a v. m st a = Some v \<longrightarrow> m st1 a = Some v)"
  using assms
  by (auto simp: evm_mload_def Let_def split: sum.splits prod.splits dest!: read_mem_256_effect)

lemma write_fold_gen:
  assumes g: "\<And>mm x d. g mm (x, d) = mm(offset + int x \<mapsto> d)"
  shows "foldl g mem (enumerate n bs) a =
     (if offset + int n \<le> a \<and> a < offset + int n + int (length bs)
      then Some (bs ! nat (a - offset - int n)) else mem a)"
proof (induction bs arbitrary: n mem)
  case Nil
  then show ?case by auto
next
  case (Cons b bs)
  have "nat (a - offset - int n) = Suc (nat (a - offset - int (Suc n)))" if "offset + int (Suc n) \<le> a"
    using that by simp
  then show ?case
    by (auto simp: Cons.IH g)
qed

lemma write_fold:
  "foldl (\<lambda>mm (x, d). mm(offset + int x \<mapsto> d)) mem (enumerate n bs) a =
     (if offset + int n \<le> a \<and> a < offset + int n + int (length bs)
      then Some (bs ! nat (a - offset - int n)) else mem a)"
  by (rule write_fold_gen) simp

lemma write_mem_256_effect:
  "m (write_mem_256 st offset val) a =
     (if offset \<le> a \<and> a < offset + int (length (bytes_value val))
      then Some (bytes_value val ! nat (a - offset)) else m st a)"
  "code (write_mem_256 st offset val) = code st"
  "i (write_mem_256 st offset val) = i st"
  "pc (write_mem_256 st offset val) = pc st"
  using write_fold [of offset "m st" 0 "bytes_value val" a]
  by (simp_all add: write_mem_256_def)

lemma evm_mstore_effect:
  assumes "evm_mstore st = Inr st1"
  shows "code st1 = code st \<and> i st \<le> i st1 \<and> pc st1 = pc st + 1 \<and>
         dom (m st) \<subseteq> dom (m st1) \<and>
         (\<forall>a. m st1 a \<noteq> m st a \<longrightarrow>
              Int256_unsigned (last (s st)) \<le> a \<and>
              a < Int256_unsigned (last (s st)) + int (length (bytes_value (last (butlast (s st))))))"
  using assms
  by (auto simp: evm_mstore_def Let_def write_mem_256_effect
           split: sum.splits prod.splits if_splits dest!: s_pop_Inr)

lemma evm_mstore8_effect:
  assumes "evm_mstore8 st = Inr st1"
  shows "code st1 = code st \<and> i st \<le> i st1 \<and> pc st1 = pc st + 1 \<and>
         dom (m st) \<subseteq> dom (m st1) \<and>
         (\<forall>a. m st1 a \<noteq> m st a \<longrightarrow> a = Int256_unsigned (last (s st)))"
  using assms
  by (auto simp: evm_mstore8_def write_mem_8_def Let_def
           split: sum.splits prod.splits if_splits dest!: s_pop_Inr)

subsection \<open>The dispatch table, entry by entry\<close>

lemma unat_push_key: "ii < 32 \<Longrightarrow> unat (0x60 + of_nat ii :: byte) = 0x60 + ii"
  by (simp add: unat_word_ariths unat_of_nat)

lemma unat_dup_key: "ii < 16 \<Longrightarrow> unat (0x80 + of_nat ii :: byte) = 0x80 + ii"
  by (simp add: unat_word_ariths unat_of_nat)

lemma unat_swap_key: "ii < 16 \<Longrightarrow> unat (0x90 + of_nat ii :: byte) = 0x90 + ii"
  by (simp add: unat_word_ariths unat_of_nat)

lemma INSTRUCTION_MAP_cases:
  assumes "INSTRUCTION_MAP b = Some f"
  shows "(b, f) \<in> set fixed_instructions
       \<or> (\<exists>ii<32. b = 0x60 + of_nat ii \<and> f = push_n (int ii + 1))
       \<or> (\<exists>ii<16. b = 0x80 + of_nat ii \<and> f = dup_n (int ii + 1))
       \<or> (\<exists>ii<16. b = 0x90 + of_nat ii \<and> f = swap_n (int ii + 1))"
  using map_of_SomeD [OF assms [unfolded INSTRUCTION_MAP_def]] by auto

lemmas plain_handlers =
  evm_stop_plain evm_add_plain evm_mul_plain evm_div_plain evm_sdiv_plain evm_mod_plain
  evm_smod_plain evm_addmod_plain evm_mulmod_plain evm_exp_plain evm_signextend_plain
  evm_lt_plain evm_gt_plain evm_slt_plain evm_sgt_plain evm_eq_plain evm_iszero_plain
  evm_and_plain evm_or_plain evm_xor_plain evm_not_plain evm_byte_plain evm_shl_plain
  evm_shr_plain evm_sar_plain evm_pop_plain evm_pc_plain evm_msize_plain evm_gas_plain
  evm_jumpdest_plain

lemma fixed_plain:
  assumes "(b, f) \<in> set fixed_instructions"
  shows "(b = 0x51 \<and> f = evm_mload) \<or> (b = 0x52 \<and> f = evm_mstore)
       \<or> (b = 0x53 \<and> f = evm_mstore8) \<or> (b = 0x56 \<and> f = evm_jump)
       \<or> (b = 0x57 \<and> f = evm_jumpi)
       \<or> (b \<notin> {0x51, 0x52, 0x53, 0x56, 0x57} \<and> plain_handler f)"
  using assms unfolding fixed_instructions_def
  by (simp, elim disjE conjE; simp add: plain_handlers)


lemma underflows_0: "underflows 0 f"
  by (simp add: underflows_def)

lemmas underflow_handlers =
  underflows_0 evm_add_underflow evm_mul_underflow evm_div_underflow evm_sdiv_underflow
  evm_mod_underflow evm_smod_underflow evm_addmod_underflow evm_mulmod_underflow
  evm_exp_underflow evm_signextend_underflow evm_lt_underflow evm_gt_underflow
  evm_slt_underflow evm_sgt_underflow evm_eq_underflow evm_iszero_underflow
  evm_and_underflow evm_or_underflow evm_xor_underflow evm_not_underflow evm_byte_underflow
  evm_shl_underflow evm_shr_underflow evm_sar_underflow evm_pop_underflow
  evm_mload_underflow evm_mstore_underflow evm_mstore8_underflow evm_jump_underflow

lemma fixed_underflow:
  assumes "(b, f) \<in> set fixed_instructions"
  shows "(b = 0x57 \<and> f = evm_jumpi) \<or> (b \<noteq> 0x57 \<and> underflows (stack_required b) f)"
  using assms unfolding fixed_instructions_def
  by (simp, elim disjE conjE; simp add: stack_required_def underflow_handlers)

subsection \<open>Every registered handler\<close>

lemma step_handler:
  assumes "step st = Inr st1"
  obtains b f where "getitem (code st) (pc st) = Inr b" "INSTRUCTION_MAP b = Some f" "f st = Inr st1"
  using assms by (auto simp: step_def execute_def split: sum.splits option.splits)

lemma handler_frame:
  assumes "INSTRUCTION_MAP b = Some f" and "f st = Inr st1"
  shows "code st1 = code st \<and> i st \<le> i st1 \<and> dom (m st) \<subseteq> dom (m st1) \<and>
         (\<forall>a. m st a \<noteq> None \<and> m st1 a \<noteq> m st a \<longrightarrow>
            (b = 0x52 \<and> Int256_unsigned (last (s st)) \<le> a \<and>
             a < Int256_unsigned (last (s st)) + int (length (bytes_value (last (butlast (s st)))))) \<or>
            (b = 0x53 \<and> a = Int256_unsigned (last (s st))))"
proof -
  consider (fixed) "(b, f) \<in> set fixed_instructions"
    | (push) ii where "f = push_n (int ii + 1)"
    | (dup) ii where "f = dup_n (int ii + 1)"
    | (swap) ii where "f = swap_n (int ii + 1)"
    using INSTRUCTION_MAP_cases [OF assms(1)] by blast
  then show ?thesis
  proof cases
    case fixed
    from fixed_plain [OF fixed] show ?thesis
    proof (elim disjE conjE)
      assume "b = 0x51" "f = evm_mload"
      with evm_mload_effect [of st st1] assms(2)
      have e: "code st1 = code st" "i st \<le> i st1" "\<And>a v. m st a = Some v \<Longrightarrow> m st1 a = Some v"
        by auto
      have "m st1 a = m st a" if "m st a \<noteq> None" for a
        using that e(3) [of a] by (cases "m st a") auto
      moreover have "dom (m st) \<subseteq> dom (m st1)"
        using e(3) by (auto simp: dom_def)
      ultimately show ?thesis using e(1,2) by blast
    next
      assume "b = 0x52" "f = evm_mstore"
      with evm_mstore_effect [of st st1] assms(2) show ?thesis by auto
    next
      assume "b = 0x53" "f = evm_mstore8"
      with evm_mstore8_effect [of st st1] assms(2) show ?thesis by auto
    next
      assume "b = 0x56" "f = evm_jump"
      with evm_jump_effect [of st st1] assms(2) show ?thesis by auto
    next
      assume "b = 0x57" "f = evm_jumpi"
      with evm_jumpi_effect [of st st1] assms(2) show ?thesis by auto
    next
      assume "plain_handler f"
      with assms(2) show ?thesis by (auto simp: plain_handler_def)
    qed
  next
    case push
    with push_n_effect [of "int ii + 1" st st1] assms(2) show ?thesis by auto
  next
    case dup
    with dup_n_plain [of "int ii + 1"] assms(2) show ?thesis by (auto simp: plain_handler_def)
  next
    case swap
    with swap_n_plain [of "int ii + 1"] assms(2) show ?thesis by (auto simp: plain_handler_def)
  qed
qed

lemma step_frame:
  assumes "step st = Inr st1"
  shows "code st1 = code st \<and> i st \<le> i st1 \<and> dom (m st) \<subseteq> dom (m st1)"
  using assms handler_frame by (elim step_handler) blast

lemma run_frame:
  "run n st = Inr st2 \<Longrightarrow> code st2 = code st \<and> i st \<le> i st2 \<and> dom (m st) \<subseteq> dom (m st2)"
proof (induction n arbitrary: st)
  case 0
  then show ?case by simp
next
  case (Suc n)
  show ?case
  proof (cases "running st")
    case True
    with Suc.prems obtain st1 where st1: "step st = Inr st1" "run n st1 = Inr st2"
      by (auto split: sum.splits)
    from step_frame [OF st1(1)] Suc.IH [OF st1(2)] show ?thesis by auto
  next
    case False
    with Suc.prems show ?thesis by simp
  qed
qed

text \<open>
  Claim C9. The counter \<open>i\<close> of active memory words never decreases: every loop iteration
  that returns leaves it at least as large as before (MLOAD, MSTORE and MSTORE8 take a maximum,
  no other handler assigns it), and so does every run of the loop. Memory keeps what was
  written: no key of \<open>m\<close> is ever removed, and the value under a key changes only when MSTORE
  (0x52) or MSTORE8 (0x53) writes to that very offset; growth of \<open>i\<close> touches no byte.
\<close>

theorem active_words_monotone:
  "(step st = Inr st1 \<longrightarrow>
      i st \<le> i st1 \<and> dom (m st) \<subseteq> dom (m st1) \<and>
      (\<forall>a. m st a \<noteq> None \<and> m st1 a \<noteq> m st a \<longrightarrow>
         (getitem (code st) (pc st) = Inr 0x52 \<and> Int256_unsigned (last (s st)) \<le> a \<and>
          a < Int256_unsigned (last (s st)) + int (length (bytes_value (last (butlast (s st)))))) \<or>
         (getitem (code st) (pc st) = Inr 0x53 \<and> a = Int256_unsigned (last (s st))))) \<and>
   (run n st = Inr st2 \<longrightarrow> i st \<le> i st2 \<and> dom (m st) \<subseteq> dom (m st2))"
proof (intro conjI impI)
  assume "step st = Inr st1"
  then obtain b f where bf: "getitem (code st) (pc st) = Inr b" "INSTRUCTION_MAP b = Some f" "f st = Inr st1"
    by (rule step_handler)
  note fr = handler_frame [OF bf(2) bf(3)]
  from fr show "i st \<le> i st1" by simp
  from fr show "dom (m st) \<subseteq> dom (m st1)" by simp
  from fr bf(1) show "\<forall>a. m st a \<noteq> None \<and> m st1 a \<noteq> m st a \<longrightarrow>
         (getitem (code st) (pc st) = Inr 0x52 \<and> Int256_unsigned (last (s st)) \<le> a \<and>
          a < Int256_unsigned (last (s st)) + int (length (bytes_value (last (butlast (s st)))))) \<or>
         (getitem (code st) (pc st) = Inr 0x53 \<and> a = Int256_unsigned (last (s st)))"
    by simp
next
  assume "run n st = Inr st2"
  from run_frame [OF this] show "i st \<le> i st2" by simp
next
  assume "run n st = Inr st2"
  from run_frame [OF this] show "dom (m st) \<subseteq> dom (m st2)" by simp
qed

theorem active_words_monotone_witness:
  "\<exists>st1. step \<lparr>code = [0x52], gas = 0, pc = 0, m = [0 \<mapsto> 7], i = 1,
                 s = [MkInt256 (replicate 32 0xff), MkInt256 (replicate 31 0 @ [0x21])]\<rparr> = Inr st1
     \<and> run 1 \<lparr>code = [0x52], gas = 0, pc = 0, m = [0 \<mapsto> 7], i = 1,
                 s = [MkInt256 (replicate 32 0xff), MkInt256 (replicate 31 0 @ [0x21])]\<rparr> = Inr st1
     \<and> i st1 = 2 \<and> 1 \<le> i st1 \<and> {0} \<subseteq> dom (m st1) \<and> m st1 0 = Some 7"
proof -
  define ST where "ST = \<lparr>code = [0x52], gas = 0, pc = 0, m = [0 \<mapsto> 7], i = 1,
                 s = [MkInt256 (replicate 32 0xff), MkInt256 (replicate 31 0 @ [0x21])]\<rparr>"
  have a: "\<not> isl (step ST)" unfolding ST_def by code_simp
  have b: "map_sum id i (step ST) = Inr 2" unfolding ST_def by code_simp
  have r: "running ST" unfolding ST_def by code_simp
  have g: "getitem (code ST) (pc ST) = Inr 0x52" unfolding ST_def by code_simp
  have o: "Int256_unsigned (last (s ST)) = 33" unfolding ST_def by code_simp
  from a obtain st1 where s1: "step ST = Inr st1" by (cases "step ST") auto
  from r s1 have r1: "run 1 ST = Inr st1" by simp
  from b s1 have i1: "i st1 = 2" by simp
  from active_words_monotone [of ST st1 1 st1] s1 r1
  have mono: "i ST \<le> i st1" "dom (m ST) \<subseteq> dom (m st1)"
    and keep: "\<forall>a. m ST a \<noteq> None \<and> m st1 a \<noteq> m ST a \<longrightarrow>
         (getitem (code ST) (pc ST) = Inr 0x52 \<and> Int256_unsigned (last (s ST)) \<le> a \<and>
          a < Int256_unsigned (last (s ST)) + int (length (bytes_value (last (butlast (s ST)))))) \<or>
         (getitem (code ST) (pc ST) = Inr 0x53 \<and> a = Int256_unsigned (last (s ST)))"
    by blast+
  from keep [rule_format, of 0] g o have "m st1 0 = m ST 0" by (auto simp: ST_def)
  then have k: "m st1 0 = Some 7" by (simp add: ST_def)
  from mono have "1 \<le> i st1 \<and> {0} \<subseteq> dom (m st1)" by (simp add: ST_def)
  with s1 r1 i1 k show ?thesis unfolding ST_def by blast
qed

subsection \<open>Stack underflow\<close>

lemma stack_required_push: "ii < 32 \<Longrightarrow> stack_required (0x60 + of_nat ii) = 0"
  by (simp add: stack_required_def unat_push_key Let_def)

lemma stack_required_dup: "ii < 16 \<Longrightarrow> stack_required (0x80 + of_nat ii) = Suc ii"
  by (simp add: stack_required_def unat_dup_key Let_def)

lemma stack_required_swap: "ii < 16 \<Longrightarrow> stack_required (0x90 + of_nat ii) = Suc (Suc ii)"
  by (simp add: stack_required_def unat_swap_key Let_def)

lemma handler_underflow:
  assumes "INSTRUCTION_MAP b = Some f" and "length (s st) < stack_required b"
  shows "(b = 0x57 \<and> f = evm_jumpi) \<or> (b \<noteq> 0x57 \<and> f st = Inl IndexError)"
proof -
  consider (fixed) "(b, f) \<in> set fixed_instructions"
    | (push) ii where "ii < 32" "b = 0x60 + of_nat ii"
    | (dup) ii where "ii < 16" "b = 0x80 + of_nat ii" "f = dup_n (int ii + 1)"
    | (swap) ii where "ii < 16" "b = 0x90 + of_nat ii" "f = swap_n (int ii + 1)"
    using INSTRUCTION_MAP_cases [OF assms(1)] by blast
  then show ?thesis
  proof cases
    case fixed
    from fixed_underflow [OF fixed] assms(2) show ?thesis
      by (auto simp: underflows_def)
  next
    case push
    with assms(2) show ?thesis by (simp add: stack_required_push)
  next
    case dup
    have ne: "b \<noteq> 0x57"
    proof
      assume "b = 0x57"
      then have "unat b = 0x57" by simp
      with dup show False by (simp add: unat_dup_key)
    qed
    from dup assms(2) have "length (s st) < Suc ii" by (simp add: stack_required_dup)
    with dup_n_underflow [of ii] dup ne show ?thesis by (simp add: underflows_def)
  next
    case swap
    have ne: "b \<noteq> 0x57"
    proof
      assume "b = 0x57"
      then have "unat b = 0x57" by simp
      with swap show False by (simp add: unat_swap_key)
    qed
    from swap assms(2) have "length (s st) < Suc (Suc ii)" by (simp add: stack_required_swap)
    with swap_n_underflow [of ii] swap ne show ?thesis by (simp add: underflows_def)
  qed
qed

text \<open>
  Claim C4, as the code has it. When the fetched opcode is registered and the stack holds
  fewer words than its handler pops or reads, the iteration never succeeds. For every opcode
  but JUMPI (0x57) the fault is IndexError, the exception of \<^verbatim>\<open>list.pop\<close> and of list
  indexing. JUMPI pops the destination, validates it, and only then pops the condition: on an
  empty stack it raises IndexError, with a single word it raises InvalidJumpDestination or
  IndexError.
\<close>

theorem stack_underflow_faults:
  assumes "getitem (code st) (pc st) = Inr b"
    and "INSTRUCTION_MAP b \<noteq> None"
    and "length (s st) < stack_required b"
  shows "(b \<noteq> 0x57 \<longrightarrow> step st = Inl IndexError) \<and>
         (b = 0x57 \<longrightarrow>
            (step st = Inl IndexError \<or> step st = Inl InvalidJumpDestination) \<and>
            (s st = [] \<longrightarrow> step st = Inl IndexError))"
proof -
  from assms(2) obtain f where f: "INSTRUCTION_MAP b = Some f" by auto
  have st: "step st = f st" using assms(1) f by (simp add: step_def execute_def)
  from handler_underflow [OF f assms(3)] show ?thesis
  proof
    assume j: "b = 0x57 \<and> f = evm_jumpi"
    then have "stack_required b = 2" by (simp add: stack_required_def)
    with assms(3) have "length (s st) < 2" by simp
    from evm_jumpi_underflow [OF this] evm_jumpi_empty [of st] j st show ?thesis by auto
  next
    assume "b \<noteq> 0x57 \<and> f st = Inl IndexError"
    with st show ?thesis by simp
  qed
qed

lemma INSTRUCTION_MAP_pop: "INSTRUCTION_MAP 0x50 = Some evm_pop"
  by (simp add: INSTRUCTION_MAP_def fixed_instructions_def)

lemma INSTRUCTION_MAP_jumpi: "INSTRUCTION_MAP 0x57 = Some evm_jumpi"
  by (simp add: INSTRUCTION_MAP_def fixed_instructions_def)

theorem stack_underflow_faults_witness:
  "getitem (code (initial_state [0x50])) (pc (initial_state [0x50])) = Inr 0x50
   \<and> INSTRUCTION_MAP 0x50 \<noteq> None
   \<and> length (s (initial_state [0x50])) < stack_required 0x50
   \<and> step (initial_state [0x50]) = Inl IndexError
   \<and> getitem (code (initial_state [0x57])) (pc (initial_state [0x57])) = Inr 0x57
   \<and> INSTRUCTION_MAP 0x57 \<noteq> None
   \<and> length (s (initial_state [0x57])) < stack_required 0x57
   \<and> step (initial_state [0x57]) = Inl IndexError"
proof -
  have g: "getitem (code (initial_state [0x50])) (pc (initial_state [0x50])) = Inr 0x50"
    by (simp add: initial_state_def getitem_def)
  have r: "INSTRUCTION_MAP 0x50 \<noteq> None" by (simp add: INSTRUCTION_MAP_pop)
  have l: "length (s (initial_state [0x50])) < stack_required 0x50"
    by (simp add: initial_state_def stack_required_def)
  have g2: "getitem (code (initial_state [0x57])) (pc (initial_state [0x57])) = Inr 0x57"
    by (simp add: initial_state_def getitem_def)
  have r2: "INSTRUCTION_MAP 0x57 \<noteq> None" by (simp add: INSTRUCTION_MAP_jumpi)
  have l2: "length (s (initial_state [0x57])) < stack_required 0x57"
    by (simp add: initial_state_def stack_required_def)
  have e2: "s (initial_state [0x57]) = []" by (simp add: initial_state_def)
  from stack_underflow_faults [OF g r l] stack_underflow_faults [OF g2 r2 l2] g r l g2 r2 l2 e2
  show ?thesis by simp
qed

text \<open>
  Claim C4, as stated, fails for JUMPI. The program \<open>60 00 57\<close> (PUSH1 0, JUMPI) reaches
  JUMPI with one word on the stack where two are needed; the byte at destination 0 is not
  JUMPDEST, and the fault is InvalidJumpDestination, not the underflow error.
\<close>

theorem jumpi_one_word_counterexample:
  "map_sum id (\<lambda>st. (pc st, length (s st))) (run 1 (initial_state [0x60, 0x00, 0x57])) = Inr (2, 1)
   \<and> stack_required 0x57 = 2
   \<and> map_sum id pc (run 2 (initial_state [0x60, 0x00, 0x57])) = Inl InvalidJumpDestination"
  by code_simp

subsection \<open>Instruction boundaries\<close>




















subsection \<open>Unregistered opcodes\<close>

text \<open>The bytes below have no entry in the dispatch table.\<close>

lemma fixed_keys:
  assumes "(b, f) \<in> set fixed_instructions"
  shows "unat b \<le> 0x02 \<or> (0x04 \<le> unat b \<and> unat b \<le> 0x0b) \<or> (0x10 \<le> unat b \<and> unat b \<le> 0x1d)
       \<or> (0x50 \<le> unat b \<and> unat b \<le> 0x53) \<or> (0x56 \<le> unat b \<and> unat b \<le> 0x5b)"
  using assms unfolding fixed_instructions_def
  by (simp, elim disjE conjE; simp)

lemma unregistered_bytes:
  assumes "unat b = 0x03 \<or> (0x0c \<le> unat b \<and> unat b \<le> 0x0f) \<or> (0x1e \<le> unat b \<and> unat b \<le> 0x4f)
         \<or> unat b = 0x54 \<or> unat b = 0x55 \<or> (0x5c \<le> unat b \<and> unat b \<le> 0x5f) \<or> 0xa0 \<le> unat b"
  shows "INSTRUCTION_MAP b = None"
proof (rule ccontr)
  assume "INSTRUCTION_MAP b \<noteq> None"
  then obtain f where f: "INSTRUCTION_MAP b = Some f" by auto
  consider (fixed) "(b, f) \<in> set fixed_instructions"
    | (push) ii where "ii < 32" "b = 0x60 + of_nat ii"
    | (dup) ii where "ii < 16" "b = 0x80 + of_nat ii"
    | (swap) ii where "ii < 16" "b = 0x90 + of_nat ii"
    using INSTRUCTION_MAP_cases [OF f] by blast
  then show False
  proof cases
    case fixed
    from fixed_keys [OF fixed] assms show False by linarith
  next
    case push
    then have "unat b = 0x60 + ii" by (simp add: unat_push_key)
    with push(1) assms show False by linarith
  next
    case dup
    then have "unat b = 0x80 + ii" by (simp add: unat_dup_key)
    with dup(1) assms show False by linarith
  next
    case swap
    then have "unat b = 0x90 + ii" by (simp add: unat_swap_key)
    with swap(1) assms show False by linarith
  qed
qed

text \<open>
  Claim C5. A byte with no entry in the dispatch table is not skipped: \<open>execute\<close> raises
  (the failed dictionary lookup is Python's KeyError, the invalid-opcode fault of the design),
  and so does the loop iteration that fetched it. SUB (0x03) has no entry, nor has any byte
  in 0x0c-0x0f, 0x1e-0x4f, 0x54-0x55, 0x5c-0x5f or from 0xa0 on.
\<close>

theorem unregistered_opcode_faults:
  "(INSTRUCTION_MAP b = None \<longrightarrow>
      execute st b = Inl KeyError \<and>
      (getitem (code st) (pc st) = Inr b \<longrightarrow> step st = Inl KeyError)) \<and>
   (unat b = 0x03 \<or> (0x0c \<le> unat b \<and> unat b \<le> 0x0f) \<or> (0x1e \<le> unat b \<and> unat b \<le> 0x4f)
      \<or> unat b = 0x54 \<or> unat b = 0x55 \<or> (0x5c \<le> unat b \<and> unat b \<le> 0x5f) \<or> 0xa0 \<le> unat b
      \<longrightarrow> INSTRUCTION_MAP b = None) \<and>
   INSTRUCTION_MAP 0x03 = None \<and> execute st 0x03 = Inl KeyError"
proof -
  have sub: "INSTRUCTION_MAP 0x03 = None"
    by (rule unregistered_bytes) simp
  show ?thesis using unregistered_bytes [of b] by (simp add: execute_def step_def sub)
qed

theorem unregistered_opcode_faults_witness:
  "unat (0x0c :: byte) = 0x0c \<and> INSTRUCTION_MAP 0x0c = None \<and>
   execute (initial_state [0x0c]) 0x0c = Inl KeyError \<and>
   getitem (code (initial_state [0x0c])) (pc (initial_state [0x0c])) = Inr 0x0c \<and>
   step (initial_state [0x0c]) = Inl KeyError"
proof -
  have u: "0x0c \<le> unat (0x0c :: byte) \<and> unat (0x0c :: byte) \<le> 0x0f" by simp
  have g: "getitem (code (initial_state [0x0c])) (pc (initial_state [0x0c])) = Inr 0x0c"
    by (simp add: initial_state_def getitem_def)
  from unregistered_opcode_faults [of "0x0c" "initial_state [0x0c]"] u g show ?thesis by simp
qed

subsection \<open>Jumps\<close>

text \<open>
  A JUMPI that returns has always set the program counter to the destination (see
  \<open>evm_jumpi_effect\<close>): the branch that advances by 1 is never taken.
\<close>

text \<open>
  Claim C1. JUMPI is to jump exactly when the condition is nonzero and otherwise advance by 1.
  The handler tests \<^verbatim>\<open>cond != 0\<close> on the popped \<^verbatim>\<open>Int256\<close> object, which is true for every
  word. The program \<open>60 00 60 07 57 60 00 5b\<close> pushes the condition 0 and the destination 7;
  after JUMPI the program counter is 7, not 5, and both words are gone.
\<close>

theorem jumpi_zero_condition_jumps:
  "map_sum id (\<lambda>st. (pc st, s st))
     (run 2 (initial_state [0x60, 0x00, 0x60, 0x07, 0x57, 0x60, 0x00, 0x5b]))
     = Inr (4, [MkInt256 (replicate 32 0), MkInt256 (replicate 31 0 @ [7])])
   \<and> Int256_unsigned (MkInt256 (replicate 32 0)) = 0
   \<and> map_sum id (\<lambda>st. (pc st, s st))
     (run 3 (initial_state [0x60, 0x00, 0x60, 0x07, 0x57, 0x60, 0x00, 0x5b]))
     = Inr (7, [])"
  by code_simp

text \<open>
  JUMP on a destination inside the program whose byte is not JUMPDEST raises
  InvalidJumpDestination; on every destination outside the program it raises IndexError.
\<close>

lemma jump_in_bounds_not_jumpdest:
  assumes "s st \<noteq> []" and "Int256_unsigned (last (s st)) < int (length (code st))"
    and "code st ! nat (Int256_unsigned (last (s st))) \<noteq> JUMPDEST"
  shows "evm_jump st = Inl InvalidJumpDestination"
  using assms Int256_unsigned_nonneg [of "last (s st)"]
  by (simp add: evm_jump_def s_pop_cases getitem_def Let_def)

lemma jump_out_of_bounds:
  assumes "s st \<noteq> []" and "int (length (code st)) \<le> Int256_unsigned (last (s st))"
  shows "evm_jump st = Inl IndexError"
  using assms Int256_unsigned_nonneg [of "last (s st)"]
  by (simp add: evm_jump_def s_pop_cases getitem_def Let_def)

text \<open>
  Claim C3. A JUMP whose destination is outside the program is to fault with
  InvalidJumpDestination. The handler indexes \<^verbatim>\<open>state.code[dest]\<close> without a bounds check,
  so the program \<open>60 05 56\<close> (PUSH1 5, JUMP; three bytes long) ends with IndexError.
\<close>

theorem jump_out_of_bounds_raises_IndexError:
  "map_sum id (\<lambda>st. (pc st, map Int256_unsigned (s st))) (run 1 (initial_state [0x60, 0x05, 0x56]))
     = Inr (2, [5])
   \<and> map_sum id pc (run 2 (initial_state [0x60, 0x05, 0x56])) = Inl IndexError"
  by code_simp

subsection \<open>Active memory size\<close>

lemma mstore8_active_words:
  "evm_mstore8 st = Inr st1 \<Longrightarrow>
     i st1 = max (i st) ((Int256_unsigned (last (s st)) + 1) div 32)"
  by (auto simp: evm_mstore8_def write_mem_8_def Let_def
           split: sum.splits prod.splits dest!: s_pop_Inr)

text \<open>
  Claim C6. MSTORE8 at offset 33 is to raise the active size to 64 bytes. The handler takes
  \<^verbatim>\<open>(offset + 1) // 32\<close>, which rounds down: the program \<open>60 ff 60 21 53 59\<close>
  (PUSH1 0xff, PUSH1 33, MSTORE8, MSIZE) leaves \<open>i = 1\<close> and MSIZE pushes 32. After MSTORE at
  offset 0 (\<open>60 ff 60 00 52 59\<close>) MSIZE does push 32.
\<close>

theorem mstore8_active_size_rounds_down:
  "map_sum id (\<lambda>st. (i st, map Int256_unsigned (s st)))
     (run 4 (initial_state [0x60, 0xff, 0x60, 0x21, 0x53, 0x59])) = Inr (1, [32])
   \<and> map_sum id (\<lambda>st. (i st, map Int256_unsigned (s st)))
     (run 4 (initial_state [0x60, 0xff, 0x60, 0x00, 0x52, 0x59])) = Inr (1, [32])"
  by code_simp

end
